theory Spec2Isabelle
  imports Main
begin

section \<open>Python values shared by the three modules\<close>

text \<open>
  Exceptions are values. \<open>KeyError k\<close> is the built-in error of a dictionary lookup
  \<open>d[k]\<close> on a missing key, \<open>ValueError msg\<close> the built-in \<open>ValueError\<close>
  (raised by \<open>chr\<close> and by \<open>FSChatBot.next_model\<close>), \<open>OverflowError\<close>,
  \<open>TypeError\<close> and \<open>ZeroDivisionError\<close> the built-in ones, and
  \<open>IsADirectoryError\<close> and \<open>FileNotFoundError\<close> the two \<open>OSError\<close>s of opening a
  path for reading. \<open>FormatError\<close> and \<open>UnpicklingError\<close> are what reading a file
  of the wrong kind gives, and \<open>External msg\<close> stands for any exception of a
  collaborator that is outside the repository (the dataset hub, the model, the
  scorer).
\<close>

datatype error =
    KeyError string
  | ValueError string
  | OverflowError
  | TypeError
  | ZeroDivisionError
  | IsADirectoryError
  | FileNotFoundError
  | FormatError
  | UnpicklingError
  | External string

text \<open>A Python \<open>str\<close> built by \<open>chr\<close> is a sequence of Unicode code points.\<close>

type_synonym ustring = "nat list"

definition ustr :: "string \<Rightarrow> ustring" where
  "ustr s = map of_char s"

text \<open>\<open>str(n)\<close> for an integer: decimal digits, with a minus sign when negative.\<close>

fun str_nat :: "nat \<Rightarrow> string" where
  "str_nat n =
     (if n < 10 then [''0123456789'' ! n]
      else str_nat (n div 10) @ [''0123456789'' ! (n mod 10)])"

definition str_int :: "int \<Rightarrow> string" where
  "str_int i = (if i < 0 then CHR ''-'' # str_nat (nat (- i)) else str_nat (nat i))"

text \<open>\<open>os.path.join\<close>, \<open>os.path.basename\<close> and \<open>os.path.split\<close> of posixpath.\<close>

definition path_join :: "string \<Rightarrow> string \<Rightarrow> string" where
  "path_join a b =
     (if b \<noteq> [] \<and> hd b = CHR ''/'' then b
      else if a = [] \<or> last a = CHR ''/'' then a @ b
      else a @ ''/'' @ b)"

definition basename :: "string \<Rightarrow> string" where
  "basename p = rev (takeWhile (\<lambda>c. c \<noteq> CHR ''/'') (rev p))"

definition path_split :: "string \<Rightarrow> string \<times> string" where
  "path_split p =
     (let tail = basename p;
          head = take (length p - length tail) p
      in if head \<noteq> [] \<and> \<not> list_all (\<lambda>c. c = CHR ''/'') head
         then (rev (dropWhile (\<lambda>c. c = CHR ''/'') (rev head)), tail)
         else (head, tail))"

section \<open>Records of the SHP loader (\<open>llm/dataloader/shp.py\<close>)\<close>

text \<open>
  A record of the deduplicated instruction file is the dictionary
  \<open>{'instruction', 'category'}\<close>; a comparison record adds \<open>output_A\<close>,
  \<open>output_B\<close> and \<open>choice\<close>, and \<open>shp_dataset\<close> adds the key \<open>domain\<close>
  (\<open>None\<close> while the key is absent). The choice is an integer as loaded and a
  string after the letter mapping, hence the type parameter.
\<close>

record inst =
  instruction :: string
  category :: string

record 'c sample = inst +
  output_A :: string
  output_B :: string
  choice :: 'c
  domain :: "string option"

text \<open>
  \<open>shp_dataset\<close> adds the integer code \<open>categories\<close> to every instruction record
  before it calls the splitter.
\<close>

record coded_inst = inst +
  categories :: nat

text \<open>
  One split of \<open>datasets.load_dataset("stanfordnlp/SHP")\<close>, by column, and the three
  splits the loader reads.
\<close>

record shp_split =
  history :: "string list"
  human_ref_A :: "string list"
  human_ref_B :: "string list"
  labels :: "int list"
  hub_domain :: "string list"

record shp_hub =
  train :: shp_split
  validation :: shp_split
  test :: shp_split

text \<open>
  Modelled from the spec: the classes \<open>LLMDataset\<close> and \<open>LLMComparisonDataset\<close> of
  \<open>llm/dataset/llm_dataset.py\<close>, which is not part of the sources at hand. A
  tokenized dataset holds per-example input-id sequences; the comparison dataset is a
  pair of such datasets, \<open>win_dataset\<close> and \<open>lose_dataset\<close>.
\<close>

record llm_dataset =
  input_ids :: "int list list"

record cmp_dataset =
  win_dataset :: llm_dataset
  lose_dataset :: llm_dataset

subsection \<open>The file system and the console\<close>

text \<open>
  A file holds the lines of a JSONL file, as the records they encode, or one pickled
  dataset object: \<open>json.dumps\<close> followed by a later parse, and \<open>pickle.dump\<close>
  followed by \<open>pickle.load\<close>, give back an equal value. A model checkpoint is a
  file whose content the code modelled here never inspects. The console keeps what
  \<open>shp_dataset\<close> prints: a header per client and the per-domain counts.

  The file system is the list of its entries, the latest first: a path, without a
  trailing slash, and the file at it, or \<open>Directory\<close> for a directory that may be
  empty. \<open>file_at\<close> finds the entry of a path. A path is known by its spelling,
  the one \<open>os.path.join\<close> gives it in the code: apart from the trailing slashes
  of a directory, two spellings of one path (a component \<open>.\<close>, a doubled slash, a
  relative and an absolute path) are different paths here.
\<close>

datatype fcontent =
    CmprJsonl "int sample list"
  | InstJsonl "inst list"
  | PickledCmp cmp_dataset
  | PickledLLM llm_dataset
  | CheckpointFile
  | Directory

datatype out_line =
    ClientHeader int
  | DomainCounts "(string \<times> nat) list"

record world =
  files :: "(string \<times> fcontent) list"
  stdout :: "out_line list"

definition file_at :: "world \<Rightarrow> string \<Rightarrow> fcontent option" where
  "file_at w p = map_of (files w) p"

text \<open>\<open>s.startswith(pre)\<close>.\<close>

fun startswith :: "string \<Rightarrow> string \<Rightarrow> bool" where
  "startswith s [] = True"
| "startswith [] (c # pre) = False"
| "startswith (d # s) (c # pre) = (d = c \<and> startswith s pre)"

text \<open>
  \<open>os.path.isdir\<close>: the directories are the root, the entries \<open>Directory\<close> and
  every directory that holds an entry. Trailing slashes of the path of a directory
  are ignored, and the empty path names nothing.
\<close>

definition isdir :: "world \<Rightarrow> string \<Rightarrow> bool" where
  "isdir w p =
     (let d = rev (dropWhile (\<lambda>c. c = CHR ''/'') (rev p))
      in p \<noteq> [] \<and>
         (d = [] \<or> file_at w d = Some Directory
          \<or> list_ex (\<lambda>q. startswith q (d @ ''/'')) (map fst (files w))))"

text \<open>
  \<open>os.path.exists\<close>: true for a file and for a directory. A path with a trailing
  slash is not a key of the entries, so that it exists only as a directory.
\<close>

definition path_exists :: "world \<Rightarrow> string \<Rightarrow> bool" where
  "path_exists w p = (case file_at w p of Some c \<Rightarrow> True | None \<Rightarrow> isdir w p)"

text \<open>
  \<open>open(p, 'w')\<close> followed by the writes and the close: the file is created or
  replaced. The writes of the code modelled here are taken to succeed.
\<close>

definition write_file :: "string \<Rightarrow> fcontent \<Rightarrow> world \<Rightarrow> world" where
  "write_file p c w = w\<lparr>files := (p, c) # files w\<rparr>"

text \<open>
  \<open>open(p)\<close> for reading, with the read of the whole file: a directory gives
  \<open>IsADirectoryError\<close> and a path that does not exist \<open>FileNotFoundError\<close>.
\<close>

definition read_file :: "world \<Rightarrow> string \<Rightarrow> error + fcontent" where
  "read_file w p =
     (case file_at w p of
        Some c \<Rightarrow> (if c = Directory then Inl IsADirectoryError else Inr c)
      | None \<Rightarrow> if isdir w p then Inl IsADirectoryError else Inl FileNotFoundError)"

text \<open>
  Modelled from the spec: \<open>load_jsonl\<close> of \<open>llm/dataloader/dataloader.py\<close>, which is
  not part of the sources at hand. It parses each line and projects the configured
  fields; unknown fields are ignored and a missing field is a format error. A file
  that is not JSONL does not parse.
\<close>

definition to_inst :: "('a, 'b) sample_scheme \<Rightarrow> inst" where
  "to_inst s = \<lparr>instruction = instruction s, category = category s\<rparr>"

definition load_jsonl_cmpr :: "world \<Rightarrow> string \<Rightarrow> error + int sample list" where
  "load_jsonl_cmpr w fp =
     (case read_file w fp of
        Inl e \<Rightarrow> Inl e
      | Inr (CmprJsonl recs) \<Rightarrow> Inr recs
      | Inr (InstJsonl recs) \<Rightarrow> (if recs = [] then Inr [] else Inl FormatError)
      | Inr _ \<Rightarrow> Inl FormatError)"

definition load_jsonl_inst :: "world \<Rightarrow> string \<Rightarrow> error + inst list" where
  "load_jsonl_inst w fp =
     (case read_file w fp of
        Inl e \<Rightarrow> Inl e
      | Inr (InstJsonl recs) \<Rightarrow> Inr recs
      | Inr (CmprJsonl recs) \<Rightarrow> Inr (map to_inst recs)
      | Inr _ \<Rightarrow> Inl FormatError)"

subsection \<open>\<open>_download_shp_cmpr\<close>\<close>

text \<open>\<open>domain.split('_')[0]\<close>: the text before the first underscore.\<close>

definition domain_prefix :: "string \<Rightarrow> string" where
  "domain_prefix d = takeWhile (\<lambda>c. c \<noteq> CHR ''_'') d"

definition cmpr_record :: "string \<times> string \<times> string \<times> int \<times> string \<Rightarrow> int sample" where
  "cmpr_record r =
     (case r of (hist, ref_A, ref_B, ch, dmn) \<Rightarrow>
        \<lparr>instruction = hist, category = domain_prefix dmn,
         output_A = ref_A, output_B = ref_B, choice = ch, domain = None\<rparr>)"

definition cmpr_records :: "shp_split \<Rightarrow> int sample list" where
  "cmpr_records sp =
     map cmpr_record
       (zip (history sp) (zip (human_ref_A sp) (zip (human_ref_B sp)
          (zip (labels sp) (hub_domain sp)))))"

definition download_shp_cmpr ::
  "(error + shp_hub) \<Rightarrow> string \<Rightarrow> world \<Rightarrow>
     world \<times> (error + int sample list \<times> int sample list \<times> int sample list)" where
  "download_shp_cmpr hub data_root w =
     (let train_fp = path_join data_root ''shp_cmpr_train.jsonl'';
          val_fp = path_join data_root ''shp_cmpr_val.jsonl'';
          test_fp = path_join data_root ''shp_cmpr_test.jsonl''
      in if path_exists w train_fp \<and> path_exists w val_fp \<and> path_exists w test_fp then
           (case load_jsonl_cmpr w train_fp of
              Inl e \<Rightarrow> (w, Inl e)
            | Inr list_train_dict \<Rightarrow>
                (case load_jsonl_cmpr w val_fp of
                   Inl e \<Rightarrow> (w, Inl e)
                 | Inr list_val_dict \<Rightarrow>
                     (case load_jsonl_cmpr w test_fp of
                        Inl e \<Rightarrow> (w, Inl e)
                      | Inr list_test_dict \<Rightarrow>
                          (w, Inr (list_train_dict, list_val_dict, list_test_dict)))))
         else
           (case hub of
              Inl e \<Rightarrow> (w, Inl e)
            | Inr dataset \<Rightarrow>
                (let list_train_dict = cmpr_records (train dataset);
                     list_val_dict = cmpr_records (validation dataset);
                     list_test_dict = cmpr_records (test dataset);
                     w1 = write_file train_fp (CmprJsonl list_train_dict) w;
                     w2 = write_file val_fp (CmprJsonl list_val_dict) w1;
                     w3 = write_file test_fp (CmprJsonl list_test_dict) w2
                 in (w3, Inr (list_train_dict, list_val_dict, list_test_dict)))))"

subsection \<open>\<open>_download_shp\<close>: the deduplicating loader\<close>

text \<open>
  The inner loop over \<open>zip(dataset[tag]['history'], dataset[tag]['domain'])\<close>. The list
  \<open>instructions\<close> is created once, before the loop over the three tags, and is
  threaded through all of them; \<open>list_data_dict\<close> is the list of the current tag.
\<close>

fun dedup_loop ::
  "(string \<times> string) list \<Rightarrow> string list \<Rightarrow> inst list \<Rightarrow> string list \<times> inst list" where
  "dedup_loop [] instructions list_data_dict = (instructions, list_data_dict)"
| "dedup_loop ((hist, dmn) # rest) instructions list_data_dict =
     (if hist \<notin> set instructions
      then dedup_loop rest (instructions @ [hist])
             (list_data_dict @ [\<lparr>instruction = hist, category = domain_prefix dmn\<rparr>])
      else dedup_loop rest instructions list_data_dict)"

definition rows :: "shp_split \<Rightarrow> (string \<times> string) list" where
  "rows sp = zip (history sp) (hub_domain sp)"

definition download_shp ::
  "(error + shp_hub) \<Rightarrow> string \<Rightarrow> world \<Rightarrow>
     world \<times> (error + inst list \<times> inst list \<times> inst list)" where
  "download_shp hub data_root w =
     (let train_fp = path_join data_root ''shp_rlhf_train.jsonl'';
          val_fp = path_join data_root ''shp_rlhf_val.jsonl'';
          test_fp = path_join data_root ''shp_rlhf_test.jsonl''
      in if path_exists w train_fp \<and> path_exists w val_fp \<and> path_exists w test_fp then
           (case load_jsonl_inst w train_fp of
              Inl e \<Rightarrow> (w, Inl e)
            | Inr list_train_dict \<Rightarrow>
                (case load_jsonl_inst w val_fp of
                   Inl e \<Rightarrow> (w, Inl e)
                 | Inr list_val_dict \<Rightarrow>
                     (case load_jsonl_inst w test_fp of
                        Inl e \<Rightarrow> (w, Inl e)
                      | Inr list_test_dict \<Rightarrow>
                          (w, Inr (list_train_dict, list_val_dict, list_test_dict)))))
         else
           (case hub of
              Inl e \<Rightarrow> (w, Inl e)
            | Inr dataset \<Rightarrow>
                (case dedup_loop (rows (train dataset)) [] [] of
                   (instructions1, list_train_dict) \<Rightarrow>
                (case dedup_loop (rows (validation dataset)) instructions1 [] of
                   (instructions2, list_val_dict) \<Rightarrow>
                (case dedup_loop (rows (test dataset)) instructions2 [] of
                   (instructions3, list_test_dict) \<Rightarrow>
                     (let w1 = write_file train_fp (InstJsonl list_train_dict) w;
                          w2 = write_file val_fp (InstJsonl list_val_dict) w1;
                          w3 = write_file test_fp (InstJsonl list_test_dict) w2
                      in (w3, Inr (list_train_dict, list_val_dict, list_test_dict))))))))"

subsection \<open>\<open>load_rlhf_dataset\<close>\<close>

text \<open>
  The tokenizer and \<open>raw_no_prompt\<close> are arguments the function never reads. A slice
  \<open>xs[:k]\<close> with \<open>k \<ge> 0\<close> is \<open>take\<close>, \<open>xs[k:]\<close> is \<open>drop\<close>.
\<close>

definition load_rlhf_dataset ::
  "(error + shp_hub) \<Rightarrow> string \<Rightarrow> int \<Rightarrow> world \<Rightarrow>
     world \<times> (error + inst list \<times> inst list \<times> inst list)" where
  "load_rlhf_dataset hub data_root max_num_test w =
     (case download_shp hub data_root w of
        (w', Inl e) \<Rightarrow> (w', Inl e)
      | (w', Inr (unused_train, list_val_dict0, list_test_dict0)) \<Rightarrow>
          (let list_train_dict = list_val_dict0 @ list_test_dict0;
               list_val_dict = take (length list_test_dict0 div 2) list_test_dict0;
               list_test_dict = drop (length list_test_dict0 div 2) list_test_dict0
           in if max_num_test > 0
              then (w', Inr (list_train_dict, take (nat max_num_test) list_val_dict,
                             take (nat max_num_test) list_test_dict))
              else (w', Inr (list_train_dict, list_val_dict, list_test_dict))))"


subsection \<open>The collaborators of the build pipeline\<close>

text \<open>
  What the pipeline calls and the repository does not define under the sources at
  hand: \<open>hub\<close> is the result of \<open>datasets.load_dataset("stanfordnlp/SHP")\<close>,
  \<open>tokenizer\<close> gives the \<open>input_ids\<close> of a text, \<open>name_or_path\<close> is the
  tokenizer's attribute, \<open>splitter n\<close> is \<open>LDASplitter(n, alpha=0.3)\<close>, and the two
  constructors build the tokenized datasets (with the prompt templates and the
  tokenizer fixed); a constructor may raise.
\<close>

record env =
  hub :: "error + shp_hub"
  tokenizer :: "string \<Rightarrow> int list"
  name_or_path :: string
  splitter :: "int \<Rightarrow> coded_inst list \<Rightarrow> coded_inst list list"
  LLMComparisonDataset :: "int sample list \<Rightarrow> error + cmp_dataset"
  LLMDataset :: "ustring sample list \<Rightarrow> error + llm_dataset"

subsection \<open>\<open>shp_dataset\<close>\<close>

text \<open>
  The first loop: \<open>cat_idx_map\<close> gives every category string a dense code in
  first-seen order; the dictionary is an association list, so that \<open>len\<close> is
  \<open>length\<close>.
\<close>

fun code_categories :: "inst list \<Rightarrow> (string \<times> nat) list \<Rightarrow> coded_inst list" where
  "code_categories [] cat_idx_map = []"
| "code_categories (s # rest) cat_idx_map =
     (case map_of cat_idx_map (category s) of
        None \<Rightarrow>
          \<lparr>instruction = instruction s, category = category s,
           categories = length cat_idx_map\<rparr>
          # code_categories rest (cat_idx_map @ [(category s, length cat_idx_map)])
      | Some c \<Rightarrow>
          \<lparr>instruction = instruction s, category = category s, categories = c\<rparr>
          # code_categories rest cat_idx_map)"

text \<open>
  The second loop: \<open>inst_client_map[sample['instruction']] = idx\<close> for every sample
  of every sublist; a later assignment overwrites an earlier one.
\<close>

fun assign_sublist :: "nat \<Rightarrow> coded_inst list \<Rightarrow> (string \<rightharpoonup> nat) \<Rightarrow> (string \<rightharpoonup> nat)" where
  "assign_sublist idx [] m = m"
| "assign_sublist idx (s # sublist) m = assign_sublist idx sublist (m(instruction s \<mapsto> idx))"

fun build_client_map ::
  "nat \<Rightarrow> coded_inst list list \<Rightarrow> (string \<rightharpoonup> nat) \<Rightarrow> (string \<rightharpoonup> nat)" where
  "build_client_map idx [] m = m"
| "build_client_map idx (sublist # rest) m =
     build_client_map (Suc idx) rest (assign_sublist idx sublist m)"

text \<open>
  The third loop: the original category moves to \<open>domain\<close> and the category becomes
  \<open>Client_i\<close>. The lookup \<open>inst_client_map[sample['instruction']]\<close> of a missing
  key raises the built-in \<open>KeyError\<close>, at the first such sample.
\<close>

definition client_label :: "int \<Rightarrow> string" where
  "client_label i = ''Client_'' @ str_int i"

fun enrich :: "(string \<rightharpoonup> nat) \<Rightarrow> int sample list \<Rightarrow> error + int sample list" where
  "enrich inst_client_map [] = Inr []"
| "enrich inst_client_map (s # rest) =
     (case inst_client_map (instruction s) of
        None \<Rightarrow> Inl (KeyError (instruction s))
      | Some i \<Rightarrow>
          (case enrich inst_client_map rest of
             Inl e \<Rightarrow> Inl e
           | Inr rest' \<Rightarrow>
               Inr (s\<lparr>domain := Some (category s), category := client_label (int i)\<rparr>
                    # rest')))"

text \<open>The fourth loop: the token budget.\<close>

definition within_budget :: "(string \<Rightarrow> int list) \<Rightarrow> ('c, 'z) sample_scheme \<Rightarrow> bool" where
  "within_budget tok s =
     (let len_inst = length (tok (instruction s));
          len_resA = length (tok (output_A s));
          len_resB = length (tok (output_B s))
      in len_inst + len_resA + len_resB \<le> 512)"

text \<open>
  The last loop prints, for every \<open>client_id\<close> of \<open>range(num_clients + 1)\<close>, a header
  and the number of kept samples per domain, in first-seen order. Every kept sample
  went through the third loop, so its \<open>domain\<close> key is present.
\<close>

fun bump_domain :: "string \<Rightarrow> (string \<times> nat) list \<Rightarrow> (string \<times> nat) list" where
  "bump_domain d [] = [(d, 1)]"
| "bump_domain d ((k, n) # rest) =
     (if k = d then (k, n + 1) # rest else (k, n) # bump_domain d rest)"

fun count_domains :: "string \<Rightarrow> int sample list \<Rightarrow> (string \<times> nat) list \<Rightarrow> (string \<times> nat) list" where
  "count_domains label [] acc = acc"
| "count_domains label (s # rest) acc =
     (if category s = label
      then count_domains label rest
             (case domain s of Some d \<Rightarrow> bump_domain d acc | None \<Rightarrow> acc)
      else count_domains label rest acc)"

definition client_report :: "int \<Rightarrow> int sample list \<Rightarrow> out_line list" where
  "client_report num_clients new_list_train_dict =
     concat (map (\<lambda>client_id.
        [ClientHeader client_id,
         DomainCounts (count_domains (client_label client_id) new_list_train_dict [])])
       [0..num_clients])"

definition shp_dataset ::
  "env \<Rightarrow> string \<Rightarrow> int \<Rightarrow> world \<Rightarrow>
     world \<times> (error + int sample list \<times> int sample list \<times> int sample list)" where
  "shp_dataset ev data_root num_clients w =
     (case download_shp_cmpr (hub ev) data_root w of
        (w1, Inl e) \<Rightarrow> (w1, Inl e)
      | (w1, Inr (list_train_dict, list_val_dict, list_test_dict)) \<Rightarrow>
     (case download_shp (hub ev) data_root w1 of
        (w2, Inl e) \<Rightarrow> (w2, Inl e)
      | (w2, Inr (list_train_instructions, unused_val, unused_test)) \<Rightarrow>
          (let inst_split_list =
                 splitter ev num_clients (code_categories list_train_instructions []);
               inst_client_map = build_client_map 0 inst_split_list Map.empty
           in case enrich inst_client_map list_train_dict of
                Inl e \<Rightarrow> (w2, Inl e)
              | Inr enriched \<Rightarrow>
                  (let new_list_train_dict = filter (within_budget (tokenizer ev)) enriched;
                       w3 = w2\<lparr>stdout := stdout w2
                                   @ client_report num_clients new_list_train_dict\<rparr>
                   in (w3, Inr (new_list_train_dict, list_val_dict, list_test_dict))))))"


subsection \<open>Reading a pickled dataset\<close>

text \<open>
  \<open>pickle.load\<close> gives back the object that was dumped. A file that holds no pickle
  does not load; a pickle of the other dataset class would load as an object without
  the attributes the caller reads, which the typed model reports as \<open>TypeError\<close>.
\<close>

definition pickle_load_cmp :: "world \<Rightarrow> string \<Rightarrow> error + cmp_dataset" where
  "pickle_load_cmp w fp =
     (case read_file w fp of
        Inl e \<Rightarrow> Inl e
      | Inr (PickledCmp d) \<Rightarrow> Inr d
      | Inr (PickledLLM d) \<Rightarrow> Inl TypeError
      | Inr _ \<Rightarrow> Inl UnpicklingError)"

definition pickle_load_llm :: "world \<Rightarrow> string \<Rightarrow> error + llm_dataset" where
  "pickle_load_llm w fp =
     (case read_file w fp of
        Inl e \<Rightarrow> Inl e
      | Inr (PickledLLM d) \<Rightarrow> Inr d
      | Inr (PickledCmp d) \<Rightarrow> Inl TypeError
      | Inr _ \<Rightarrow> Inl UnpicklingError)"

subsection \<open>\<open>load_comparison_dataset\<close>\<close>

text \<open>
  \<open>comparison_cache\<close> is the cache part of the function (the \<open>if\<close>/\<open>else\<close> on the
  three pickle files); \<open>load_comparison_dataset\<close> is the whole function: the cache
  part followed by the shrinking of the validation and test datasets.
  \<open>num_clients\<close> is \<open>config.federate.client_num\<close>.
\<close>

definition comparison_paths :: "env \<Rightarrow> string \<Rightarrow> int \<Rightarrow> string \<times> string \<times> string" where
  "comparison_paths ev data_root num_clients =
     (let token_name = basename (name_or_path ev)
      in (path_join data_root (token_name @ ''_train_'' @ str_int num_clients @ ''.pickle''),
          path_join data_root (token_name @ ''_val.pickle''),
          path_join data_root (token_name @ ''_test.pickle'')))"

definition comparison_cache ::
  "env \<Rightarrow> string \<Rightarrow> int \<Rightarrow> world \<Rightarrow>
     world \<times> (error + cmp_dataset \<times> cmp_dataset \<times> cmp_dataset)" where
  "comparison_cache ev data_root num_clients w =
     (case comparison_paths ev data_root num_clients of (train_fp, val_fp, test_fp) \<Rightarrow>
        if path_exists w train_fp \<and> path_exists w val_fp \<and> path_exists w test_fp then
          (case pickle_load_cmp w train_fp of
             Inl e \<Rightarrow> (w, Inl e)
           | Inr train_dataset \<Rightarrow>
               (case pickle_load_cmp w val_fp of
                  Inl e \<Rightarrow> (w, Inl e)
                | Inr val_dataset \<Rightarrow>
                    (case pickle_load_cmp w test_fp of
                       Inl e \<Rightarrow> (w, Inl e)
                     | Inr test_dataset \<Rightarrow>
                         (w, Inr (train_dataset, val_dataset, test_dataset)))))
        else
          (case shp_dataset ev data_root num_clients w of
             (w1, Inl e) \<Rightarrow> (w1, Inl e)
           | (w1, Inr (list_train_dict, list_val_dict, list_test_dict)) \<Rightarrow>
               (case LLMComparisonDataset ev list_train_dict of
                  Inl e \<Rightarrow> (w1, Inl e)
                | Inr train_dataset \<Rightarrow>
                    (case LLMComparisonDataset ev list_val_dict of
                       Inl e \<Rightarrow> (w1, Inl e)
                     | Inr val_dataset \<Rightarrow>
                         (case LLMComparisonDataset ev list_test_dict of
                            Inl e \<Rightarrow> (w1, Inl e)
                          | Inr test_dataset \<Rightarrow>
                              (let w2 = write_file train_fp (PickledCmp train_dataset) w1;
                                   w3 = write_file val_fp (PickledCmp val_dataset) w2;
                                   w4 = write_file test_fp (PickledCmp test_dataset) w3
                               in (w4, Inr (train_dataset, val_dataset, test_dataset))))))))"

text \<open>\<open>d.input_ids = d.input_ids[:max_num_test]\<close>, for a positive \<open>max_num_test\<close>.\<close>

definition shrink_llm :: "int \<Rightarrow> llm_dataset \<Rightarrow> llm_dataset" where
  "shrink_llm max_num_test d = d\<lparr>input_ids := take (nat max_num_test) (input_ids d)\<rparr>"

definition shrink_cmp :: "int \<Rightarrow> cmp_dataset \<Rightarrow> cmp_dataset" where
  "shrink_cmp max_num_test d =
     d\<lparr>win_dataset := shrink_llm max_num_test (win_dataset d),
       lose_dataset := shrink_llm max_num_test (lose_dataset d)\<rparr>"

definition load_comparison_dataset ::
  "env \<Rightarrow> string \<Rightarrow> int \<Rightarrow> int \<Rightarrow> world \<Rightarrow>
     world \<times> (error + cmp_dataset \<times> cmp_dataset \<times> cmp_dataset)" where
  "load_comparison_dataset ev data_root num_clients max_num_test w =
     (case comparison_cache ev data_root num_clients w of
        (w', Inl e) \<Rightarrow> (w', Inl e)
      | (w', Inr (train_dataset, val_dataset, test_dataset)) \<Rightarrow>
          if max_num_test > 0
          then (w', Inr (train_dataset, shrink_cmp max_num_test val_dataset,
                         shrink_cmp max_num_test test_dataset))
          else (w', Inr (train_dataset, val_dataset, test_dataset)))"

subsection \<open>\<open>load_shp_cmp_dataset_by_choice\<close>: the letter-choice shaper\<close>

text \<open>
  The copy of a training sample with the two outputs exchanged and the choice
  flipped; \<open>copy.deepcopy\<close> makes the copies objects of their own, so the originals
  keep their fields.
\<close>

definition exchange :: "int sample \<Rightarrow> int sample" where
  "exchange s = s\<lparr>output_A := output_B s, output_B := output_A s, choice := 1 - choice s\<rparr>"

definition mirror_train :: "int sample list \<Rightarrow> int sample list" where
  "mirror_train list_train_dict =
     (let exchange_list_train_dict = map exchange list_train_dict
      in list_train_dict @ exchange_list_train_dict)"

text \<open>
  \<open>chr(i)\<close> is the character of code point \<open>i\<close>. CPython converts the argument
  to a C \<open>int\<close>, of 32 bits, and raises \<open>OverflowError\<close> when it does not fit; an
  argument that fits raises \<open>ValueError\<close> outside \<open>range(0x110000)\<close>.
  \<open>ord("A")\<close> is 65. The mapped choice is
  \<open>" " + chr(sample['choice'] + ord("A"))\<close>.
\<close>

definition chr :: "int \<Rightarrow> error + nat" where
  "chr i = (if i < - 2147483648 \<or> 2147483647 < i then Inl OverflowError
            else if 0 \<le> i \<and> i < 1114112 then Inr (nat i)
            else Inl (ValueError ''chr() arg not in range(0x110000)''))"

definition choice_letter :: "int \<Rightarrow> error + ustring" where
  "choice_letter c =
     (case chr (c + of_char CHR ''A'') of
        Inl e \<Rightarrow> Inl e
      | Inr cp \<Rightarrow> Inr (ustr '' '' @ [cp]))"

fun map_choice :: "int sample list \<Rightarrow> error + ustring sample list" where
  "map_choice [] = Inr []"
| "map_choice (s # rest) =
     (case choice_letter (choice s) of
        Inl e \<Rightarrow> Inl e
      | Inr letter \<Rightarrow>
          (case map_choice rest of
             Inl e \<Rightarrow> Inl e
           | Inr rest' \<Rightarrow>
               Inr (\<lparr>instruction = instruction s, category = category s,
                     output_A = output_A s, output_B = output_B s,
                     choice = letter, domain = domain s\<rparr> # rest')))"

text \<open>
  The shaping between \<open>shp_dataset\<close> and the dataset constructors: the training
  list is extended by its exchanged copy, then the choices of the three lists are
  mapped, in the order train, test, val of the source's loop.
\<close>

definition shape_by_choice ::
  "int sample list \<Rightarrow> int sample list \<Rightarrow> int sample list \<Rightarrow>
     error + ustring sample list \<times> ustring sample list \<times> ustring sample list" where
  "shape_by_choice list_train_dict list_val_dict list_test_dict =
     (case map_choice (mirror_train list_train_dict) of
        Inl e \<Rightarrow> Inl e
      | Inr shaped_train \<Rightarrow>
          (case map_choice list_test_dict of
             Inl e \<Rightarrow> Inl e
           | Inr shaped_test \<Rightarrow>
               (case map_choice list_val_dict of
                  Inl e \<Rightarrow> Inl e
                | Inr shaped_val \<Rightarrow> Inr (shaped_train, shaped_val, shaped_test))))"

definition choice_paths :: "env \<Rightarrow> string \<Rightarrow> int \<Rightarrow> string \<times> string \<times> string" where
  "choice_paths ev data_root num_clients =
     (let token_name = basename (name_or_path ev)
      in (path_join data_root
            (token_name @ ''_train_choice_'' @ str_int num_clients @ ''.pickle''),
          path_join data_root (token_name @ ''_val_choice.pickle''),
          path_join data_root (token_name @ ''_test_choice.pickle'')))"

definition choice_cache ::
  "env \<Rightarrow> string \<Rightarrow> int \<Rightarrow> world \<Rightarrow>
     world \<times> (error + llm_dataset \<times> llm_dataset \<times> llm_dataset)" where
  "choice_cache ev data_root num_clients w =
     (case choice_paths ev data_root num_clients of (train_fp, val_fp, test_fp) \<Rightarrow>
        if path_exists w train_fp \<and> path_exists w val_fp \<and> path_exists w test_fp then
          (case pickle_load_llm w train_fp of
             Inl e \<Rightarrow> (w, Inl e)
           | Inr train_dataset \<Rightarrow>
               (case pickle_load_llm w val_fp of
                  Inl e \<Rightarrow> (w, Inl e)
                | Inr val_dataset \<Rightarrow>
                    (case pickle_load_llm w test_fp of
                       Inl e \<Rightarrow> (w, Inl e)
                     | Inr test_dataset \<Rightarrow>
                         (w, Inr (train_dataset, val_dataset, test_dataset)))))
        else
          (case shp_dataset ev data_root num_clients w of
             (w1, Inl e) \<Rightarrow> (w1, Inl e)
           | (w1, Inr (list_train_dict, list_val_dict, list_test_dict)) \<Rightarrow>
          (case shape_by_choice list_train_dict list_val_dict list_test_dict of
             Inl e \<Rightarrow> (w1, Inl e)
           | Inr (shaped_train, shaped_val, shaped_test) \<Rightarrow>
               (case LLMDataset ev shaped_train of
                  Inl e \<Rightarrow> (w1, Inl e)
                | Inr train_dataset \<Rightarrow>
                    (case LLMDataset ev shaped_val of
                       Inl e \<Rightarrow> (w1, Inl e)
                     | Inr val_dataset \<Rightarrow>
                         (case LLMDataset ev shaped_test of
                            Inl e \<Rightarrow> (w1, Inl e)
                          | Inr test_dataset \<Rightarrow>
                              (let w2 = write_file train_fp (PickledLLM train_dataset) w1;
                                   w3 = write_file val_fp (PickledLLM val_dataset) w2;
                                   w4 = write_file test_fp (PickledLLM test_dataset) w3
                               in (w4, Inr (train_dataset, val_dataset, test_dataset)))))))))"

definition load_shp_cmp_dataset_by_choice ::
  "env \<Rightarrow> string \<Rightarrow> int \<Rightarrow> int \<Rightarrow> world \<Rightarrow>
     world \<times> (error + llm_dataset \<times> llm_dataset \<times> llm_dataset)" where
  "load_shp_cmp_dataset_by_choice ev data_root num_clients max_num_test w =
     (case choice_cache ev data_root num_clients w of
        (w', Inl e) \<Rightarrow> (w', Inl e)
      | (w', Inr (train_dataset, val_dataset, test_dataset)) \<Rightarrow>
          if max_num_test > 0
          then (w', Inr (train_dataset, shrink_llm max_num_test val_dataset,
                         shrink_llm max_num_test test_dataset))
          else (w', Inr (train_dataset, val_dataset, test_dataset)))"

section \<open>The chat wrapper (\<open>llm/misc/fschat.py\<close>)\<close>

text \<open>
  The configuration entries \<open>FSChatBot\<close> reads for its checkpoints, and the part of
  its state the checkpoint search reads and writes. The model is known by where its
  weights come from: the pretrained model as \<open>get_llm\<close> builds it, wrapped for
  offsite tuning with or without a checkpoint, or loaded from a checkpoint file.
  Splitting \<open>config.model.type\<close> at its \<open>@\<close>, loading the tokenizer and the
  pretrained model are taken to succeed, and so is loading the state of a checkpoint
  file into the model.
\<close>

record chat_config =
  total_round_num :: int
  save_freq :: int
  save_to :: string
  offsite_tuning_use :: bool

datatype model_source =
    Pretrained
  | OffsiteWrapped "string option"
  | LoadedFrom string

record chatbot =
  config :: chat_config
  prefix :: "string list"
  dirname :: string
  filename :: string
  curpfx :: "string option"
  model :: model_source

text \<open>
  \<open>['final_'] + [str(i*save_freq) + '_' for i in range(num_ckpt, -1, -1)] + ['']\<close>
  with \<open>num_ckpt = total_round_num // save_freq\<close>: Python's floor division is
  \<open>div\<close> on \<open>int\<close>, and raises on a zero divisor.
\<close>

definition init_prefix :: "chat_config \<Rightarrow> error + string list" where
  "init_prefix cfg =
     (if save_freq cfg = 0 then Inl ZeroDivisionError
      else (let num_ckpt = total_round_num cfg div save_freq cfg
            in Inr ([''final_'']
                    @ map (\<lambda>i. str_int (i * save_freq cfg) @ ''_'') (rev [0..num_ckpt])
                    @ [[]])))"

text \<open>The loop of \<open>next_model\<close> over \<open>self.prefix\<close>, left at the first existing file.\<close>

fun first_existing :: "world \<Rightarrow> string \<Rightarrow> string \<Rightarrow> string list \<Rightarrow> string option" where
  "first_existing w d f [] = None"
| "first_existing w d f (pre # rest) =
     (if path_exists w (path_join d (pre @ f)) then Some pre
      else first_existing w d f rest)"

text \<open>\<open>xs.index(x)\<close> for an \<open>x\<close> that occurs in \<open>xs\<close>.\<close>

definition list_index :: "'a list \<Rightarrow> 'a \<Rightarrow> nat" where
  "list_index xs x = length (takeWhile (\<lambda>y. y \<noteq> x) xs)"

text \<open>
  \<open>torch.load(ckpt_path, map_location='cpu')\<close> opens the path for reading, so that
  a directory and a missing path give the error of \<open>open\<close>; a file that is no
  checkpoint does not load, with an error of the library.
\<close>

definition torch_load :: "world \<Rightarrow> string \<Rightarrow> error + unit" where
  "torch_load w p =
     (case read_file w p of
        Inl e \<Rightarrow> Inl e
      | Inr c \<Rightarrow> if c = CheckpointFile then Inr () else Inl (External ''torch.load''))"

text \<open>
  Modelled from the spec: \<open>wrap_offsite_tuning_for_eval\<close> of
  \<open>llm/offsite_tuning/utils.py\<close>, which is not part of the sources at hand and
  which the specification leaves to the collaborator that loads checkpoints. It is
  taken to return a wrapped model for the path it is given, whatever the path holds.
\<close>

definition next_model :: "world \<Rightarrow> chatbot \<Rightarrow> error + chatbot" where
  "next_model w self =
     (case first_existing w (dirname self) (filename self) (prefix self) of
        Some pre \<Rightarrow>
          (let ckpt_path = path_join (dirname self) (pre @ filename self);
               rest = drop (list_index (prefix self) pre + 1) (prefix self)
           in if offsite_tuning_use (config self)
              then Inr (self\<lparr>curpfx := Some pre, model := OffsiteWrapped (Some ckpt_path),
                             prefix := rest\<rparr>)
              else (case torch_load w ckpt_path of
                      Inl e \<Rightarrow> Inl e
                    | Inr ckpt \<Rightarrow>
                        Inr (self\<lparr>curpfx := Some pre, model := LoadedFrom ckpt_path,
                                   prefix := rest\<rparr>)))
      | None \<Rightarrow>
          if length (prefix self) > 1
          then Inr (self\<lparr>curpfx := None,
                        model := (if offsite_tuning_use (config self)
                                  then OffsiteWrapped None else Pretrained),
                        prefix := []\<rparr>)
          else Inl (ValueError ''No more model is able to us''))"

text \<open>
  \<open>use_raw_model\<close> evaluates \<open>self.device + 1\<close>, a string plus an integer, after the
  model is built.
\<close>

definition use_raw_model :: "chatbot \<Rightarrow> error + chatbot" where
  "use_raw_model self = Inl TypeError"

definition FSChatBot :: "world \<Rightarrow> chat_config \<Rightarrow> bool \<Rightarrow> error + chatbot" where
  "FSChatBot w cfg use_raw =
     (case init_prefix cfg of
        Inl e \<Rightarrow> Inl e
      | Inr pfx \<Rightarrow>
          (case path_split (save_to cfg) of (d, f) \<Rightarrow>
             (let self = \<lparr>config = cfg, prefix = pfx, dirname = d, filename = f,
                         curpfx = None, model = Pretrained\<rparr>
              in if use_raw then use_raw_model self else next_model w self)))"

section \<open>The summarization evaluation (\<open>llm/eval/eval_for_tldr/eval_summarization.py\<close>)\<close>

text \<open>
  A test item, and the item once \<open>completion\<close> and \<open>score\<close> are stored in it. The
  type \<open>'s\<close> is the score the ROUGE scorer returns, \<open>'r\<close> the aggregate of the
  bootstrap aggregator.
\<close>

record tldr_item =
  subreddit :: string
  title :: string
  post :: string
  summary :: string

record 's scored_item = tldr_item +
  completion :: string
  score :: 's

text \<open>
  What is written to the results file: the block of an item, the line of equal signs
  after it, and the aggregate line at the end.
\<close>

datatype ('s, 'r) display_entry =
    ItemBlock "'s scored_item"
  | Separator
  | AggregateLine 'r

text \<open>
  The output of \<open>main\<close>: the results file \<open>{curpfx}_summarization.txt\<close> (every write
  to it in the loop is flushed), the file \<open>summarization.json\<close> when it was dumped,
  and the errors the \<open>except\<close> clause printed.
\<close>

record ('s, 'r) eval_out =
  display_name :: string
  results_display :: "('s, 'r) display_entry list"
  summarization_json :: "'s scored_item list option"
  printed_errors :: "error list"

text \<open>
  The collaborators: \<open>generate fschatbot item\<close> is the prompt formatting, the call of
  \<open>fschatbot.generate\<close> and the selection \<open>model_completions[i][0]\<close> for the batch
  that holds the item alone (\<open>get_input_data\<close> is called with its default width 1);
  \<open>scorer\<close> is \<open>scorer.score(summary, completion)\<close>; \<open>aggregate\<close> is the
  aggregator over all added scores. The first two may raise.
\<close>

fun scoring_loop ::
  "(tldr_item \<Rightarrow> error + string) \<Rightarrow> (string \<Rightarrow> string \<Rightarrow> error + 's) \<Rightarrow>
   tldr_item list \<Rightarrow> ('s, 'r) display_entry list \<Rightarrow> 's scored_item list \<Rightarrow>
   ('s, 'r) display_entry list \<times> 's scored_item list \<times> error option" where
  "scoring_loop gen scorer [] written scored = (written, scored, None)"
| "scoring_loop gen scorer (item # rest) written scored =
     (case gen item of
        Inl err \<Rightarrow> (written, scored, Some err)
      | Inr text \<Rightarrow>
          (case scorer (summary item) text of
             Inl err \<Rightarrow> (written, scored, Some err)
           | Inr sc \<Rightarrow>
               (let sample = \<lparr>subreddit = subreddit item, title = title item,
                              post = post item, summary = summary item,
                              completion = text, score = sc\<rparr>
                in scoring_loop gen scorer rest
                     (written @ [ItemBlock sample, Separator]) (scored @ [sample]))))"

definition str_opt :: "string option \<Rightarrow> string" where
  "str_opt x = (case x of None \<Rightarrow> ''None'' | Some s \<Rightarrow> s)"

text \<open>The \<open>try\<close> block of \<open>main\<close> with its \<open>except Exception\<close> clause.\<close>

definition evaluate ::
  "chatbot \<Rightarrow> (chatbot \<Rightarrow> tldr_item \<Rightarrow> error + string) \<Rightarrow>
   (string \<Rightarrow> string \<Rightarrow> error + 's) \<Rightarrow> ('s list \<Rightarrow> 'r) \<Rightarrow> tldr_item list \<Rightarrow>
   ('s, 'r) eval_out" where
  "evaluate fschatbot generate scorer aggregate list_data_dict =
     (let name = str_opt (curpfx fschatbot) @ ''_summarization.txt''
      in case scoring_loop (generate fschatbot) scorer list_data_dict [] [] of
           (written, scored, Some err) \<Rightarrow>
             \<lparr>display_name = name, results_display = written,
              summarization_json = None, printed_errors = [err]\<rparr>
         | (written, scored, None) \<Rightarrow>
             \<lparr>display_name = name,
              results_display = written @ [AggregateLine (aggregate (map score scored))],
              summarization_json = Some scored, printed_errors = []\<rparr>)"

text \<open>
  \<open>main\<close>: the chat bot is built and the test file is loaded before the \<open>try\<close>
  block; \<open>loaded\<close> is the result of fetching and parsing the test file.
\<close>

definition main ::
  "world \<Rightarrow> chat_config \<Rightarrow> (error + tldr_item list) \<Rightarrow>
   (chatbot \<Rightarrow> tldr_item \<Rightarrow> error + string) \<Rightarrow>
   (string \<Rightarrow> string \<Rightarrow> error + 's) \<Rightarrow> ('s list \<Rightarrow> 'r) \<Rightarrow>
   error + ('s, 'r) eval_out" where
  "main w init_cfg loaded generate scorer aggregate =
     (case FSChatBot w init_cfg False of
        Inl e \<Rightarrow> Inl e
      | Inr fschatbot \<Rightarrow>
          (case loaded of
             Inl e \<Rightarrow> Inl e
           | Inr list_data_dict \<Rightarrow>
               Inr (evaluate fschatbot generate scorer aggregate list_data_dict)))"

section \<open>Notions used to state the properties\<close>

subsection \<open>Deduplication\<close>

text \<open>
  \<open>first_occs xs\<close> keeps, of every element of \<open>xs\<close>, its first occurrence, in the
  order of \<open>xs\<close>. \<open>first_kept seen rs\<close> is the list of instruction records of the
  rows \<open>rs\<close> whose instruction is new with respect to \<open>seen\<close>: one record per such
  instruction, in the order of first occurrence, with the category of the first row
  that carries the instruction.
\<close>

primrec first_occs :: "'a list \<Rightarrow> 'a list" where
  "first_occs [] = []"
| "first_occs (x # xs) = x # filter (\<lambda>y. y \<noteq> x) (first_occs xs)"

definition first_kept :: "string list \<Rightarrow> (string \<times> string) list \<Rightarrow> inst list" where
  "first_kept seen rs =
     map (\<lambda>h. \<lparr>instruction = h, category = domain_prefix (the (map_of rs h))\<rparr>)
       (first_occs (filter (\<lambda>h. h \<notin> set seen) (map fst rs)))"

definition hist :: "shp_split \<Rightarrow> string list" where
  "hist sp = map fst (rows sp)"

text \<open>
  The claim about \<open>_download_shp\<close> as the specification words it: every split is
  deduplicated on its own.
\<close>

definition dedup_each_split :: "shp_hub \<Rightarrow> inst list \<times> inst list \<times> inst list" where
  "dedup_each_split ds =
     (first_kept [] (rows (train ds)),
      first_kept [] (rows (validation ds)),
      first_kept [] (rows (test ds)))"

text \<open>
  What the loop computes: an instruction already met in an earlier split (train before
  validation before test) is dropped from the later split as well.
\<close>

definition dedup_across_splits :: "shp_hub \<Rightarrow> inst list \<times> inst list \<times> inst list" where
  "dedup_across_splits ds =
     (first_kept [] (rows (train ds)),
      first_kept (hist (train ds)) (rows (validation ds)),
      first_kept (hist (train ds) @ hist (validation ds)) (rows (test ds)))"

text \<open>The three instruction files of the data root are all present.\<close>

definition shp_rlhf_cached :: "world \<Rightarrow> string \<Rightarrow> bool" where
  "shp_rlhf_cached w data_root =
     (path_exists w (path_join data_root ''shp_rlhf_train.jsonl'') \<and>
      path_exists w (path_join data_root ''shp_rlhf_val.jsonl'') \<and>
      path_exists w (path_join data_root ''shp_rlhf_test.jsonl''))"

text \<open>The slice \<open>[:max_num_test]\<close> that is taken only for a positive bound.\<close>

definition shrink_list :: "int \<Rightarrow> 'a list \<Rightarrow> 'a list" where
  "shrink_list max_num_test xs = (if max_num_test > 0 then take (nat max_num_test) xs else xs)"

subsection \<open>A small corpus\<close>

text \<open>
  The training split repeats \<open>q1\<close>, the validation split holds \<open>q1\<close> again, and the
  test split holds \<open>q3\<close> of the validation split and \<open>q4\<close> twice. \<open>world0\<close> is an
  empty data root with an empty console.
\<close>

definition hub_ex :: shp_hub where
  "hub_ex =
     \<lparr>train = \<lparr>history = [''q1'', ''q2'', ''q1''], human_ref_A = [''a'', ''bbb'', ''c''],
                human_ref_B = [''x'', ''y'', ''z''], labels = [0, 1, 1],
                hub_domain = [''askphysics_train'', ''legaladvice_train'', ''askphysics_train'']\<rparr>,
      validation = \<lparr>history = [''q1'', ''q3''], human_ref_A = [''d'', ''e''],
                human_ref_B = [''u'', ''v''], labels = [1, 0],
                hub_domain = [''askphysics_validation'', ''askhr_validation'']\<rparr>,
      test = \<lparr>history = [''q4'', ''q3'', ''q5'', ''q4''], human_ref_A = [''f'', ''g'', ''h'', ''i''],
                human_ref_B = [''r'', ''s'', ''t'', ''w''], labels = [0, 0, 1, 1],
                hub_domain = [''askhr_test'', ''askhr_test'', ''askvet_test'', ''askhr_test'']\<rparr>\<rparr>"

definition world0 :: world where
  "world0 = \<lparr>files = [], stdout = []\<rparr>"

subsection \<open>The letter-choice shaper\<close>

text \<open>
  The choices \<open>chr\<close> accepts after the shift by \<open>ord("A")\<close>, and the sample with its
  choice replaced by the space followed by the character of code point
  \<open>choice + 65\<close>.
\<close>

definition in_chr_range :: "int \<Rightarrow> bool" where
  "in_chr_range c = (- 65 \<le> c \<and> c < 1114047)"

definition lettered :: "int sample \<Rightarrow> ustring sample" where
  "lettered s =
     \<lparr>instruction = instruction s, category = category s,
      output_A = output_A s, output_B = output_B s,
      choice = [32, nat (choice s + 65)], domain = domain s\<rparr>"

definition binary_choices :: "int sample list \<Rightarrow> bool" where
  "binary_choices xs = list_all (\<lambda>s. choice s = 0 \<or> choice s = 1) xs"

text \<open>
  The error of \<open>chr(c + 65)\<close> for a choice \<open>c\<close> that it does not accept:
  \<open>OverflowError\<close> when \<open>c + 65\<close> does not fit a C \<open>int\<close>, \<open>ValueError\<close>
  otherwise.
\<close>

definition chr_failure :: "int \<Rightarrow> error" where
  "chr_failure c =
     (if - 2147483713 \<le> c \<and> c \<le> 2147483582
      then ValueError ''chr() arg not in range(0x110000)''
      else OverflowError)"

text \<open>The first sample of a list whose choice \<open>chr\<close> does not accept, if any.\<close>

definition first_rejected :: "int sample list \<Rightarrow> int sample option" where
  "first_rejected xs = find (\<lambda>s. \<not> in_chr_range (choice s)) xs"

text \<open>Three comparison records: choices 0 and 1, and a choice outside \<open>{0, 1}\<close>.\<close>

definition sample_a :: "int sample" where
  "sample_a = \<lparr>instruction = ''q1'', category = ''Client_0'', output_A = ''a'',
               output_B = ''x'', choice = 0, domain = Some ''askphysics''\<rparr>"

definition sample_b :: "int sample" where
  "sample_b = \<lparr>instruction = ''q2'', category = ''legaladvice'', output_A = ''b'',
               output_B = ''y'', choice = 1, domain = None\<rparr>"

definition sample_c :: "int sample" where
  "sample_c = \<lparr>instruction = ''q3'', category = ''askhr'', output_A = ''c'',
               output_B = ''z'', choice = 2, domain = None\<rparr>"

text \<open>Two records whose choice \<open>chr\<close> rejects: below the range, and beyond a C \<open>int\<close>.\<close>

definition sample_low :: "int sample" where
  "sample_low = \<lparr>instruction = ''q4'', category = ''askhr'', output_A = ''d'',
                 output_B = ''u'', choice = - 66, domain = None\<rparr>"

definition sample_huge :: "int sample" where
  "sample_huge = \<lparr>instruction = ''q5'', category = ''askvet'', output_A = ''e'',
                  output_B = ''v'', choice = 2147483583, domain = None\<rparr>"

subsection \<open>\<open>shp_dataset\<close>\<close>

text \<open>
  The three comparison files of the data root are all present; the instruction files
  are read in the state \<open>_download_shp_cmpr\<close> leaves.
\<close>

definition shp_cmpr_cached :: "world \<Rightarrow> string \<Rightarrow> bool" where
  "shp_cmpr_cached w data_root =
     (path_exists w (path_join data_root ''shp_cmpr_train.jsonl'') \<and>
      path_exists w (path_join data_root ''shp_cmpr_val.jsonl'') \<and>
      path_exists w (path_join data_root ''shp_cmpr_test.jsonl''))"

text \<open>
  The instruction-to-client map of a run: built from the sublists the splitter
  returns for the coded training instructions.
\<close>

definition client_map :: "env \<Rightarrow> int \<Rightarrow> inst list \<Rightarrow> (string \<rightharpoonup> nat)" where
  "client_map ev num_clients list_train_instructions =
     build_client_map 0
       (splitter ev num_clients (code_categories list_train_instructions [])) Map.empty"

text \<open>
  The record with its category moved to \<open>domain\<close> and replaced by the label of
  client \<open>i\<close>, and the token count the budget is about.
\<close>

definition relabel :: "nat \<Rightarrow> int sample \<Rightarrow> int sample" where
  "relabel i s = s\<lparr>domain := Some (category s), category := ''Client_'' @ str_int (int i)\<rparr>"

definition relabel_by :: "(string \<rightharpoonup> nat) \<Rightarrow> int sample \<Rightarrow> int sample" where
  "relabel_by m s = relabel (the (m (instruction s))) s"

definition token_sum :: "(string \<Rightarrow> int list) \<Rightarrow> ('c, 'z) sample_scheme \<Rightarrow> nat" where
  "token_sum tok s =
     length (tok (instruction s)) + length (tok (output_A s)) + length (tok (output_B s))"

text \<open>
  Collaborators for concrete runs: a tokenizer with a hundred tokens per character, a
  splitter that gives the first instruction to client 0 and the others to client 1,
  and dataset constructors that keep a code per character of the completions.
\<close>

definition char_tokenizer :: "string \<Rightarrow> int list" where
  "char_tokenizer s = concat (map (\<lambda>c. replicate 100 (of_char c)) s)"

definition env_ex :: env where
  "env_ex =
     \<lparr>hub = Inr hub_ex,
      tokenizer = char_tokenizer,
      name_or_path = ''models/tok'',
      splitter = (\<lambda>n xs. [take 1 xs, drop 1 xs]),
      LLMComparisonDataset = (\<lambda>xs.
        Inr \<lparr>win_dataset = \<lparr>input_ids = map (\<lambda>s. map of_char
                 (if choice s = 0 then output_A s else output_B s)) xs\<rparr>,
             lose_dataset = \<lparr>input_ids = map (\<lambda>s. map of_char
                 (if choice s = 0 then output_B s else output_A s)) xs\<rparr>\<rparr>),
      LLMDataset = (\<lambda>xs. Inr \<lparr>input_ids = map (\<lambda>s. map int (choice s)) xs\<rparr>)\<rparr>"

text \<open>
  A data root whose instruction files are present and hold the instruction \<open>q1\<close>
  alone, while the comparison files are still to be fetched.
\<close>

definition world_stale :: world where
  "world_stale =
     \<lparr>files =
        [(''data/shp_rlhf_train.jsonl'',
           InstJsonl [\<lparr>instruction = ''q1'', category = ''askphysics''\<rparr>]),
         (''data/shp_rlhf_val.jsonl'', InstJsonl []),
         (''data/shp_rlhf_test.jsonl'', InstJsonl [])],
      stdout = []\<rparr>"

text \<open>The comparison records of the small corpus, split by split.\<close>

definition train_ex :: "int sample list" where
  "train_ex =
     [\<lparr>instruction = ''q1'', category = ''askphysics'', output_A = ''a'',
       output_B = ''x'', choice = 0, domain = None\<rparr>,
      \<lparr>instruction = ''q2'', category = ''legaladvice'', output_A = ''bbb'',
       output_B = ''y'', choice = 1, domain = None\<rparr>,
      \<lparr>instruction = ''q1'', category = ''askphysics'', output_A = ''c'',
       output_B = ''z'', choice = 1, domain = None\<rparr>]"

definition val_ex :: "int sample list" where
  "val_ex =
     [\<lparr>instruction = ''q1'', category = ''askphysics'', output_A = ''d'',
       output_B = ''u'', choice = 1, domain = None\<rparr>,
      \<lparr>instruction = ''q3'', category = ''askhr'', output_A = ''e'',
       output_B = ''v'', choice = 0, domain = None\<rparr>]"

definition test_ex :: "int sample list" where
  "test_ex =
     [\<lparr>instruction = ''q4'', category = ''askhr'', output_A = ''f'',
       output_B = ''r'', choice = 0, domain = None\<rparr>,
      \<lparr>instruction = ''q3'', category = ''askhr'', output_A = ''g'',
       output_B = ''s'', choice = 0, domain = None\<rparr>,
      \<lparr>instruction = ''q5'', category = ''askvet'', output_A = ''h'',
       output_B = ''t'', choice = 1, domain = None\<rparr>,
      \<lparr>instruction = ''q4'', category = ''askhr'', output_A = ''i'',
       output_B = ''w'', choice = 1, domain = None\<rparr>]"

text \<open>The data root once the comparison files, and then the instruction files, exist.\<close>

definition world1 :: world where
  "world1 = fst (download_shp_cmpr (Inr hub_ex) ''data'' world0)"

definition world2 :: world where
  "world2 = fst (download_shp (Inr hub_ex) ''data'' world1)"

text \<open>The stale data root once the comparison files exist.\<close>

definition world_stale1 :: world where
  "world_stale1 = fst (download_shp_cmpr (Inr hub_ex) ''data'' world_stale)"

subsection \<open>The tokenized-dataset cache\<close>

text \<open>The three pickle files of a loader are all present.\<close>

definition comparison_cached :: "env \<Rightarrow> string \<Rightarrow> int \<Rightarrow> world \<Rightarrow> bool" where
  "comparison_cached ev data_root num_clients w =
     (case comparison_paths ev data_root num_clients of (train_fp, val_fp, test_fp) \<Rightarrow>
        path_exists w train_fp \<and> path_exists w val_fp \<and> path_exists w test_fp)"

definition choice_cached :: "env \<Rightarrow> string \<Rightarrow> int \<Rightarrow> world \<Rightarrow> bool" where
  "choice_cached ev data_root num_clients w =
     (case choice_paths ev data_root num_clients of (train_fp, val_fp, test_fp) \<Rightarrow>
        path_exists w train_fp \<and> path_exists w val_fp \<and> path_exists w test_fp)"

text \<open>
  What the three pickle files of a loader hold, read in the order train, val, test:
  the datasets, or the error of the first file that does not load.
\<close>

definition stored_comparison ::
  "env \<Rightarrow> string \<Rightarrow> int \<Rightarrow> world \<Rightarrow> error + cmp_dataset \<times> cmp_dataset \<times> cmp_dataset" where
  "stored_comparison ev data_root num_clients w =
     (case comparison_paths ev data_root num_clients of (train_fp, val_fp, test_fp) \<Rightarrow>
        (case pickle_load_cmp w train_fp of
           Inl e \<Rightarrow> Inl e
         | Inr a \<Rightarrow>
             (case pickle_load_cmp w val_fp of
                Inl e \<Rightarrow> Inl e
              | Inr b \<Rightarrow>
                  (case pickle_load_cmp w test_fp of
                     Inl e \<Rightarrow> Inl e
                   | Inr c \<Rightarrow> Inr (a, b, c)))))"

definition stored_choice ::
  "env \<Rightarrow> string \<Rightarrow> int \<Rightarrow> world \<Rightarrow> error + llm_dataset \<times> llm_dataset \<times> llm_dataset" where
  "stored_choice ev data_root num_clients w =
     (case choice_paths ev data_root num_clients of (train_fp, val_fp, test_fp) \<Rightarrow>
        (case pickle_load_llm w train_fp of
           Inl e \<Rightarrow> Inl e
         | Inr a \<Rightarrow>
             (case pickle_load_llm w val_fp of
                Inl e \<Rightarrow> Inl e
              | Inr b \<Rightarrow>
                  (case pickle_load_llm w test_fp of
                     Inl e \<Rightarrow> Inl e
                   | Inr c \<Rightarrow> Inr (a, b, c)))))"

text \<open>
  The build pipeline of each loader, up to the three datasets and before anything is
  serialized: \<open>shp_dataset\<close>, for the letter-choice loader the shaping, and the three
  constructor calls.
\<close>

definition build_comparison ::
  "env \<Rightarrow> string \<Rightarrow> int \<Rightarrow> world \<Rightarrow>
     world \<times> (error + cmp_dataset \<times> cmp_dataset \<times> cmp_dataset)" where
  "build_comparison ev data_root num_clients w =
     (case shp_dataset ev data_root num_clients w of
        (w1, Inl e) \<Rightarrow> (w1, Inl e)
      | (w1, Inr (tr, va, te)) \<Rightarrow>
          (case LLMComparisonDataset ev tr of
             Inl e \<Rightarrow> (w1, Inl e)
           | Inr a \<Rightarrow>
               (case LLMComparisonDataset ev va of
                  Inl e \<Rightarrow> (w1, Inl e)
                | Inr b \<Rightarrow>
                    (case LLMComparisonDataset ev te of
                       Inl e \<Rightarrow> (w1, Inl e)
                     | Inr c \<Rightarrow> (w1, Inr (a, b, c))))))"

definition build_choice ::
  "env \<Rightarrow> string \<Rightarrow> int \<Rightarrow> world \<Rightarrow>
     world \<times> (error + llm_dataset \<times> llm_dataset \<times> llm_dataset)" where
  "build_choice ev data_root num_clients w =
     (case shp_dataset ev data_root num_clients w of
        (w1, Inl e) \<Rightarrow> (w1, Inl e)
      | (w1, Inr (tr, va, te)) \<Rightarrow>
          (case shape_by_choice tr va te of
             Inl e \<Rightarrow> (w1, Inl e)
           | Inr (str, sva, ste) \<Rightarrow>
               (case LLMDataset ev str of
                  Inl e \<Rightarrow> (w1, Inl e)
                | Inr a \<Rightarrow>
                    (case LLMDataset ev sva of
                       Inl e \<Rightarrow> (w1, Inl e)
                     | Inr b \<Rightarrow>
                         (case LLMDataset ev ste of
                            Inl e \<Rightarrow> (w1, Inl e)
                          | Inr c \<Rightarrow> (w1, Inr (a, b, c)))))))"

text \<open>The data root with the three datasets of a build serialized, in the source's order.\<close>

definition store_comparison ::
  "env \<Rightarrow> string \<Rightarrow> int \<Rightarrow> cmp_dataset \<times> cmp_dataset \<times> cmp_dataset \<Rightarrow> world \<Rightarrow> world" where
  "store_comparison ev data_root num_clients r w =
     (case comparison_paths ev data_root num_clients of (train_fp, val_fp, test_fp) \<Rightarrow>
        (case r of (a, b, c) \<Rightarrow>
           write_file test_fp (PickledCmp c)
             (write_file val_fp (PickledCmp b) (write_file train_fp (PickledCmp a) w))))"

definition store_choice ::
  "env \<Rightarrow> string \<Rightarrow> int \<Rightarrow> llm_dataset \<times> llm_dataset \<times> llm_dataset \<Rightarrow> world \<Rightarrow> world" where
  "store_choice ev data_root num_clients r w =
     (case choice_paths ev data_root num_clients of (train_fp, val_fp, test_fp) \<Rightarrow>
        (case r of (a, b, c) \<Rightarrow>
           write_file test_fp (PickledLLM c)
             (write_file val_fp (PickledLLM b) (write_file train_fp (PickledLLM a) w))))"

text \<open>
  Collaborators that fail at every call, with the tokenizer name of \<open>env_ex\<close>: a run
  that succeeds with them called none of them.
\<close>

definition env_offline :: env where
  "env_offline =
     \<lparr>hub = Inl (External ''offline''),
      tokenizer = (\<lambda>s. []),
      name_or_path = ''models/tok'',
      splitter = (\<lambda>n xs. []),
      LLMComparisonDataset = (\<lambda>xs. Inl (External ''not built'')),
      LLMDataset = (\<lambda>xs. Inl (External ''not built''))\<rparr>"

text \<open>The datasets the constructors of \<open>env_ex\<close> build from the small corpus.\<close>

definition cmp_train_ex :: cmp_dataset where
  "cmp_train_ex = \<lparr>win_dataset = \<lparr>input_ids = [[97], [122]]\<rparr>,
                    lose_dataset = \<lparr>input_ids = [[120], [99]]\<rparr>\<rparr>"

definition cmp_val_ex :: cmp_dataset where
  "cmp_val_ex = \<lparr>win_dataset = \<lparr>input_ids = [[117], [101]]\<rparr>,
                  lose_dataset = \<lparr>input_ids = [[100], [118]]\<rparr>\<rparr>"

definition cmp_test_ex :: cmp_dataset where
  "cmp_test_ex = \<lparr>win_dataset = \<lparr>input_ids = [[102], [103], [116], [119]]\<rparr>,
                   lose_dataset = \<lparr>input_ids = [[114], [115], [104], [105]]\<rparr>\<rparr>"

definition choice_train_ex :: llm_dataset where
  "choice_train_ex = \<lparr>input_ids = [[32, 65], [32, 66], [32, 66], [32, 65]]\<rparr>"

definition choice_val_ex :: llm_dataset where
  "choice_val_ex = \<lparr>input_ids = [[32, 66], [32, 65]]\<rparr>"

definition choice_test_ex :: llm_dataset where
  "choice_test_ex = \<lparr>input_ids = [[32, 65], [32, 65], [32, 66], [32, 66]]\<rparr>"

text \<open>The data root after the first run of each loader on the empty data root.\<close>

definition world_cmp :: world where
  "world_cmp = fst (comparison_cache env_ex ''data'' 2 world0)"

definition world_choice :: world where
  "world_choice = fst (choice_cache env_ex ''data'' 2 world0)"

subsection \<open>The checkpoint search\<close>

text \<open>
  The prefixes in the order the search tries them, and whether the candidate file of
  a prefix exists: the file \<open>{prefix}{basename}\<close> in the directory of
  \<open>config.federate.save_to\<close>.
\<close>

definition checkpoint_prefixes :: "chat_config \<Rightarrow> string list" where
  "checkpoint_prefixes cfg =
     ''final_''
     # map (\<lambda>i. str_int (i * save_freq cfg) @ ''_'')
         (rev [0..total_round_num cfg div save_freq cfg])
     @ [[]]"

definition candidate_path :: "chat_config \<Rightarrow> string \<Rightarrow> string" where
  "candidate_path cfg pre =
     path_join (fst (path_split (save_to cfg))) (pre @ snd (path_split (save_to cfg)))"

definition candidate_exists :: "world \<Rightarrow> chat_config \<Rightarrow> string \<Rightarrow> bool" where
  "candidate_exists w cfg pre = path_exists w (candidate_path cfg pre)"

text \<open>
  The error of loading the candidate of a prefix, if any: without offsite tuning the
  candidate is read by \<open>torch.load\<close>.
\<close>

definition load_error :: "world \<Rightarrow> chat_config \<Rightarrow> string \<Rightarrow> error option" where
  "load_error w cfg pre =
     (if offsite_tuning_use cfg then None
      else (case torch_load w (candidate_path cfg pre) of
              Inl e \<Rightarrow> Some e
            | Inr ckpt \<Rightarrow> None))"

text \<open>The model a checkpoint path, or none, leads to.\<close>

definition model_from :: "chat_config \<Rightarrow> string option \<Rightarrow> model_source" where
  "model_from cfg p =
     (case p of
        Some ckpt_path \<Rightarrow>
          if offsite_tuning_use cfg then OffsiteWrapped (Some ckpt_path)
          else LoadedFrom ckpt_path
      | None \<Rightarrow> if offsite_tuning_use cfg then OffsiteWrapped None else Pretrained)"

text \<open>
  A run of two rounds with a checkpoint after each, saved to \<open>ckpt/model.ckpt\<close>; a
  directory that holds the checkpoint of round 1 and the one without prefix.
\<close>

definition cfg_ex :: chat_config where
  "cfg_ex = \<lparr>total_round_num = 2, save_freq = 1, save_to = ''ckpt/model.ckpt'',
             offsite_tuning_use = False\<rparr>"

definition world_ckpt :: world where
  "world_ckpt =
     \<lparr>files = [(''ckpt/1_model.ckpt'', CheckpointFile),
                (''ckpt/model.ckpt'', CheckpointFile)],
      stdout = []\<rparr>"





subsection \<open>The scoring loop\<close>

text \<open>
  What one turn of the loop does with an item: the stored sample, or the exception of
  the generation or of the scorer. The samples before the first exception, what is
  written for a list of samples, and the first exception if there is one.
\<close>

definition item_result ::
  "(tldr_item \<Rightarrow> error + string) \<Rightarrow> (string \<Rightarrow> string \<Rightarrow> error + 's) \<Rightarrow> tldr_item \<Rightarrow>
     error + 's scored_item" where
  "item_result gen scorer item =
     (case gen item of
        Inl err \<Rightarrow> Inl err
      | Inr text \<Rightarrow>
          (case scorer (summary item) text of
             Inl err \<Rightarrow> Inl err
           | Inr sc \<Rightarrow>
               Inr \<lparr>subreddit = subreddit item, title = title item, post = post item,
                    summary = summary item, completion = text, score = sc\<rparr>))"

definition scored_prefix ::
  "(tldr_item \<Rightarrow> error + string) \<Rightarrow> (string \<Rightarrow> string \<Rightarrow> error + 's) \<Rightarrow> tldr_item list \<Rightarrow>
     's scored_item list" where
  "scored_prefix gen scorer items =
     map (\<lambda>item. projr (item_result gen scorer item))
       (takeWhile (\<lambda>item. \<not> isl (item_result gen scorer item)) items)"

definition first_error ::
  "(tldr_item \<Rightarrow> error + string) \<Rightarrow> (string \<Rightarrow> string \<Rightarrow> error + 's) \<Rightarrow> tldr_item list \<Rightarrow>
     error option" where
  "first_error gen scorer items =
     (case find (\<lambda>item. isl (item_result gen scorer item)) items of
        None \<Rightarrow> None
      | Some item \<Rightarrow> Some (projl (item_result gen scorer item)))"

definition blocks :: "'s scored_item list \<Rightarrow> ('s, 'r) display_entry list" where
  "blocks samples = concat (map (\<lambda>s. [ItemBlock s, Separator]) samples)"

text \<open>
  Two test items and collaborators for a concrete run: the generation fails on the
  post \<open>boom\<close> and otherwise keeps the first two characters of the post; the score
  is the length of the completion; the aggregate is the sum of the scores.
\<close>

definition item_1 :: tldr_item where
  "item_1 = \<lparr>subreddit = ''askhr'', title = ''t1'', post = ''long post'', summary = ''lo''\<rparr>"

definition item_2 :: tldr_item where
  "item_2 = \<lparr>subreddit = ''askvet'', title = ''t2'', post = ''boom'', summary = ''bo''\<rparr>"

definition generate_ex :: "chatbot \<Rightarrow> tldr_item \<Rightarrow> error + string" where
  "generate_ex fschatbot item =
     (if post item = ''boom'' then Inl (External ''generation failed'')
      else Inr (take 2 (post item)))"

definition scorer_ex :: "string \<Rightarrow> string \<Rightarrow> error + nat" where
  "scorer_ex reference text = Inr (length text)"

definition aggregate_ex :: "nat list \<Rightarrow> nat" where
  "aggregate_ex scores = sum_list scores"

text \<open>
  The chat bot the directory with the checkpoint of round 1 gives, and the sample of
  the first item.
\<close>

definition bot_ex :: chatbot where
  "bot_ex = \<lparr>config = cfg_ex, prefix = [''0_'', []], dirname = ''ckpt'',
             filename = ''model.ckpt'', curpfx = Some ''1_'',
             model = LoadedFrom ''ckpt/1_model.ckpt''\<rparr>"

definition sample_1 :: "nat scored_item" where
  "sample_1 = \<lparr>subreddit = ''askhr'', title = ''t1'', post = ''long post'',
               summary = ''lo'', completion = ''lo'', score = 2\<rparr>"

section \<open>The deduplicating loader\<close>

subsection \<open>The loop of one split\<close>

lemma first_occs_filter: "first_occs (filter P xs) = filter P (first_occs xs)"
  by (induction xs) (auto intro: filter_cong)

lemma set_first_occs: "set (first_occs xs) = set xs"
  by (induction xs) auto

lemma distinct_first_occs: "distinct (first_occs xs)"
  by (induction xs) (auto simp: set_first_occs)

lemma dedup_loop_fst:
  "fst (dedup_loop rs ins acc) = ins @ first_occs (filter (\<lambda>h. h \<notin> set ins) (map fst rs))"
proof (induction rs arbitrary: ins acc)
  case Nil
  then show ?case by simp
next
  case (Cons r rs)
  obtain h d where r: "r = (h, d)" by (cases r)
  show ?case
  proof (cases "h \<in> set ins")
    case True
    then show ?thesis using Cons r by simp
  next
    case False
    have "filter (\<lambda>y. y \<noteq> h) (filter (\<lambda>h. h \<notin> set ins) (map fst rs))
          = filter (\<lambda>x. x \<notin> set (ins @ [h])) (map fst rs)"
      by (auto intro: filter_cong)
    then show ?thesis using False Cons r
      by (simp add: first_occs_filter [symmetric])
  qed
qed

lemma dedup_loop_snd:
  "snd (dedup_loop rs ins acc) = acc @ first_kept ins rs"
proof (induction rs arbitrary: ins acc)
  case Nil
  then show ?case by (simp add: first_kept_def)
next
  case (Cons r rs)
  obtain h d where r: "r = (h, d)" by (cases r)
  show ?case
  proof (cases "h \<in> set ins")
    case True
    have "first_kept ins ((h, d) # rs) = first_kept ins rs"
      unfolding first_kept_def using True
      by (auto simp: set_first_occs)
    then show ?thesis using True Cons r by simp
  next
    case False
    let ?ys = "first_occs (filter (\<lambda>x. x \<notin> set (ins @ [h])) (map fst rs))"
    have f: "filter (\<lambda>y. y \<noteq> h) (filter (\<lambda>h. h \<notin> set ins) (map fst rs))
          = filter (\<lambda>x. x \<notin> set (ins @ [h])) (map fst rs)"
      by (auto intro: filter_cong)
    have ys: "filter (\<lambda>y. y \<noteq> h) (first_occs (filter (\<lambda>h. h \<notin> set ins) (map fst rs))) = ?ys"
      by (simp only: first_occs_filter [symmetric] f)
    have "\<forall>x \<in> set ?ys. x \<noteq> h"
      by (simp add: set_first_occs)
    then have m:
      "map (\<lambda>x. \<lparr>instruction = x, category = domain_prefix (the (map_of ((h, d) # rs) x))\<rparr>) ?ys
       = map (\<lambda>x. \<lparr>instruction = x, category = domain_prefix (the (map_of rs x))\<rparr>) ?ys"
      by (auto simp del: set_append)
    have "first_kept ins ((h, d) # rs)
          = \<lparr>instruction = h, category = domain_prefix d\<rparr> # first_kept (ins @ [h]) rs"
    proof -
      have "first_occs (filter (\<lambda>x. x \<notin> set ins) (map fst ((h, d) # rs))) = h # ?ys"
        using False ys by simp
      then show ?thesis
        unfolding first_kept_def using m by simp
    qed
    then show ?thesis using False Cons r by simp
  qed
qed

lemma dedup_loop_eq:
  "dedup_loop rs ins acc
   = (ins @ first_occs (filter (\<lambda>h. h \<notin> set ins) (map fst rs)), acc @ first_kept ins rs)"
  by (simp add: prod_eq_iff dedup_loop_fst dedup_loop_snd)

lemma first_kept_cong: "set seen = set seen' \<Longrightarrow> first_kept seen rs = first_kept seen' rs"
  by (simp add: first_kept_def)

lemma instruction_first_kept:
  "map instruction (first_kept seen rs) = first_occs (filter (\<lambda>h. h \<notin> set seen) (map fst rs))"
  by (simp add: first_kept_def comp_def)

subsection \<open>The three splits\<close>

lemma download_shp_miss:
  assumes "\<not> shp_rlhf_cached w data_root"
  shows "snd (download_shp (Inr ds) data_root w) = Inr (dedup_across_splits ds)"
proof -
  have s1: "first_kept (first_occs (hist (train ds))) = first_kept (hist (train ds))"
    by (intro ext first_kept_cong) (simp add: set_first_occs)
  have s2: "first_kept (first_occs (hist (train ds))
              @ first_occs (filter (\<lambda>h. h \<notin> set (hist (train ds))) (hist (validation ds))))
            = first_kept (hist (train ds) @ hist (validation ds))"
    by (intro ext first_kept_cong) (auto simp: set_first_occs)
  have c: "\<not> (path_exists w (path_join data_root ''shp_rlhf_train.jsonl'') \<and>
      path_exists w (path_join data_root ''shp_rlhf_val.jsonl'') \<and>
      path_exists w (path_join data_root ''shp_rlhf_test.jsonl''))"
    using assms unfolding shp_rlhf_cached_def .
  show ?thesis
    unfolding download_shp_def Let_def
    by (subst if_not_P [OF c])
      (simp add: dedup_loop_eq dedup_across_splits_def hist_def [symmetric]
        set_first_occs s1 s2)
qed

lemma distinct_across_splits:
  "dedup_across_splits ds = (tr, va, te) \<Longrightarrow> distinct (map instruction (tr @ va @ te))"
proof -
  assume d: "dedup_across_splits ds = (tr, va, te)"
  have "map instruction (tr @ va @ te)
        = map instruction (first_kept [] (rows (train ds)))
          @ map instruction (first_kept (hist (train ds)) (rows (validation ds)))
          @ map instruction (first_kept (hist (train ds) @ hist (validation ds)) (rows (test ds)))"
    using d by (auto simp: dedup_across_splits_def)
  then show ?thesis
    unfolding instruction_first_kept hist_def
    by (auto simp: distinct_first_occs set_first_occs)
qed

lemma world0_not_cached: "\<not> shp_rlhf_cached world0 ''data''"
  by (simp add: shp_rlhf_cached_def world0_def path_exists_def file_at_def isdir_def
      path_join_def)

lemma dedup_across_splits_ex:
  "dedup_across_splits hub_ex =
     ([\<lparr>instruction = ''q1'', category = ''askphysics''\<rparr>,
       \<lparr>instruction = ''q2'', category = ''legaladvice''\<rparr>],
      [\<lparr>instruction = ''q3'', category = ''askhr''\<rparr>],
      [\<lparr>instruction = ''q4'', category = ''askhr''\<rparr>,
       \<lparr>instruction = ''q5'', category = ''askvet''\<rparr>])"
  by (simp add: dedup_across_splits_def first_kept_def hub_ex_def rows_def hist_def
      domain_prefix_def)

lemma dedup_each_split_ex:
  "dedup_each_split hub_ex =
     ([\<lparr>instruction = ''q1'', category = ''askphysics''\<rparr>,
       \<lparr>instruction = ''q2'', category = ''legaladvice''\<rparr>],
      [\<lparr>instruction = ''q1'', category = ''askphysics''\<rparr>,
       \<lparr>instruction = ''q3'', category = ''askhr''\<rparr>],
      [\<lparr>instruction = ''q4'', category = ''askhr''\<rparr>,
       \<lparr>instruction = ''q3'', category = ''askhr''\<rparr>,
       \<lparr>instruction = ''q5'', category = ''askvet''\<rparr>])"
  by (simp add: dedup_each_split_def first_kept_def hub_ex_def rows_def
      domain_prefix_def)

lemma download_shp_ex:
  "download_shp (Inr hub_ex) ''data'' world0
     = (fst (download_shp (Inr hub_ex) ''data'' world0),
        Inr ([\<lparr>instruction = ''q1'', category = ''askphysics''\<rparr>,
              \<lparr>instruction = ''q2'', category = ''legaladvice''\<rparr>],
             [\<lparr>instruction = ''q3'', category = ''askhr''\<rparr>],
             [\<lparr>instruction = ''q4'', category = ''askhr''\<rparr>,
              \<lparr>instruction = ''q5'', category = ''askvet''\<rparr>]))"
  using download_shp_miss [OF world0_not_cached, of hub_ex]
  by (simp add: dedup_across_splits_ex prod_eq_iff)

text \<open>
  C5, as the code has it. When the three instruction files are not all present,
  \<open>_download_shp\<close> returns, for every split, the first occurrence of each instruction
  that no earlier split (train, then validation, then test) holds: no two returned
  records, of one split or of two, have the same instruction, and within a split the
  order is that of first occurrence in the input.
\<close>

theorem download_shp_dedup_across_splits:
  assumes "\<not> shp_rlhf_cached w data_root"
  shows "snd (download_shp (Inr ds) data_root w) = Inr (dedup_across_splits ds) \<and>
         (case dedup_across_splits ds of (tr, va, te) \<Rightarrow>
            distinct (map instruction (tr @ va @ te)) \<and>
            map instruction tr = first_occs (hist (train ds)) \<and>
            map instruction va
              = filter (\<lambda>h. h \<notin> set (hist (train ds))) (first_occs (hist (validation ds))) \<and>
            map instruction te
              = filter (\<lambda>h. h \<notin> set (hist (train ds)) \<union> set (hist (validation ds)))
                  (first_occs (hist (test ds))))"
proof -
  obtain tr va te where d: "dedup_across_splits ds = (tr, va, te)"
    by (cases "dedup_across_splits ds")
  have "distinct (map instruction (tr @ va @ te))"
    using d by (rule distinct_across_splits)
  moreover have "map instruction tr = first_occs (hist (train ds))"
    using d by (auto simp: dedup_across_splits_def instruction_first_kept hist_def)
  moreover have "map instruction va
      = filter (\<lambda>h. h \<notin> set (hist (train ds))) (first_occs (hist (validation ds)))"
    using d by (auto simp: dedup_across_splits_def instruction_first_kept hist_def
        first_occs_filter)
  moreover have "map instruction te
      = filter (\<lambda>h. h \<notin> set (hist (train ds)) \<union> set (hist (validation ds)))
          (first_occs (hist (test ds)))"
    using d by (auto simp: dedup_across_splits_def instruction_first_kept hist_def
        first_occs_filter)
  moreover have "snd (download_shp (Inr ds) data_root w) = Inr (tr, va, te)"
    using download_shp_miss [OF assms] d by simp
  ultimately show ?thesis
    by (simp only: d prod.case simp_thms)
qed

theorem download_shp_dedup_across_splits_witness:
  "\<not> shp_rlhf_cached world0 ''data'' \<and>
   snd (download_shp (Inr hub_ex) ''data'' world0)
     = Inr ([\<lparr>instruction = ''q1'', category = ''askphysics''\<rparr>,
             \<lparr>instruction = ''q2'', category = ''legaladvice''\<rparr>],
            [\<lparr>instruction = ''q3'', category = ''askhr''\<rparr>],
            [\<lparr>instruction = ''q4'', category = ''askhr''\<rparr>,
             \<lparr>instruction = ''q5'', category = ''askvet''\<rparr>])"
  using download_shp_dedup_across_splits [OF world0_not_cached, of hub_ex]
    world0_not_cached
  by (simp add: dedup_across_splits_ex)

text \<open>
  The claim C5 as worded, each split deduplicated on its own, fails: \<open>q1\<close> is the
  first occurrence in the validation split and \<open>q3\<close> in the test split, and both
  are dropped because an earlier split holds them.
\<close>

theorem download_shp_per_split_counterexample:
  "snd (download_shp (Inr hub_ex) ''data'' world0)
     = Inr ([\<lparr>instruction = ''q1'', category = ''askphysics''\<rparr>,
             \<lparr>instruction = ''q2'', category = ''legaladvice''\<rparr>],
            [\<lparr>instruction = ''q3'', category = ''askhr''\<rparr>],
            [\<lparr>instruction = ''q4'', category = ''askhr''\<rparr>,
             \<lparr>instruction = ''q5'', category = ''askvet''\<rparr>]) \<and>
   snd (download_shp (Inr hub_ex) ''data'' world0) \<noteq> Inr (dedup_each_split hub_ex)"
  using download_shp_miss [OF world0_not_cached, of hub_ex]
  by (simp add: dedup_across_splits_ex dedup_each_split_ex)

subsection \<open>\<open>load_rlhf_dataset\<close>\<close>

text \<open>
  C9. Whatever \<open>_download_shp\<close> returns, \<open>load_rlhf_dataset\<close> drops its train list
  and returns the validation records followed by the test records as train, the first
  half (length div 2) of the test records as val and the rest as test; a positive
  \<open>max_num_test\<close> cuts the returned val and test lists to their first
  \<open>max_num_test\<close> entries and leaves the train list as it is.
\<close>

theorem load_rlhf_dataset_relabels_splits:
  assumes "download_shp h data_root w = (w', Inr (tr, va, te))"
  shows "load_rlhf_dataset h data_root max_num_test w
         = (w', Inr (va @ te,
                     shrink_list max_num_test (take (length te div 2) te),
                     shrink_list max_num_test (drop (length te div 2) te)))"
  using assms by (simp add: load_rlhf_dataset_def shrink_list_def Let_def)

theorem load_rlhf_dataset_relabels_splits_witness:
  "snd (load_rlhf_dataset (Inr hub_ex) ''data'' 1 world0)
     = Inr ([\<lparr>instruction = ''q3'', category = ''askhr''\<rparr>,
             \<lparr>instruction = ''q4'', category = ''askhr''\<rparr>,
             \<lparr>instruction = ''q5'', category = ''askvet''\<rparr>],
            [\<lparr>instruction = ''q4'', category = ''askhr''\<rparr>],
            [\<lparr>instruction = ''q5'', category = ''askvet''\<rparr>]) \<and>
   snd (load_rlhf_dataset (Inr hub_ex) ''data'' (- 1) world0)
     = Inr ([\<lparr>instruction = ''q3'', category = ''askhr''\<rparr>,
             \<lparr>instruction = ''q4'', category = ''askhr''\<rparr>,
             \<lparr>instruction = ''q5'', category = ''askvet''\<rparr>],
            [\<lparr>instruction = ''q4'', category = ''askhr''\<rparr>],
            [\<lparr>instruction = ''q5'', category = ''askvet''\<rparr>])"
  using load_rlhf_dataset_relabels_splits [OF download_shp_ex, of 1]
    load_rlhf_dataset_relabels_splits [OF download_shp_ex, of "- 1"]
  by (simp add: shrink_list_def)

section \<open>The letter-choice shaper\<close>

lemma choice_letter_eq:
  "choice_letter c
   = (if in_chr_range c then Inr [32, nat (c + 65)] else Inl (chr_failure c))"
  by (simp add: choice_letter_def chr_def ustr_def in_chr_range_def chr_failure_def)

lemma map_choice_eq:
  "map_choice xs
   = (case first_rejected xs of
        None \<Rightarrow> Inr (map lettered xs)
      | Some s \<Rightarrow> Inl (chr_failure (choice s)))"
  by (induction xs)
    (auto simp: first_rejected_def choice_letter_eq lettered_def split: option.splits)

lemma first_rejected_append:
  "first_rejected (xs @ ys)
   = (case first_rejected xs of None \<Rightarrow> first_rejected ys | Some s \<Rightarrow> Some s)"
  by (induction xs) (auto simp: first_rejected_def)

lemma first_rejected_None:
  "first_rejected xs = None \<longleftrightarrow> list_all (\<lambda>s. in_chr_range (choice s)) xs"
  by (auto simp: first_rejected_def find_None_iff list_all_iff)

lemma shape_by_choice_eq:
  "shape_by_choice tr va te
   = (case first_rejected (mirror_train tr @ te @ va) of
        None \<Rightarrow> Inr (map lettered (mirror_train tr), map lettered va, map lettered te)
      | Some s \<Rightarrow> Inl (chr_failure (choice s)))"
  by (simp add: shape_by_choice_def map_choice_eq first_rejected_append
      split: option.splits)

lemma shape_by_choice_Inr:
  "shape_by_choice tr va te = Inr (tr', va', te') \<Longrightarrow>
     tr' = map lettered (mirror_train tr) \<and> va' = map lettered va \<and> te' = map lettered te"
  by (simp add: shape_by_choice_eq split: option.splits)

lemma length_mirror_train: "length (mirror_train tr) = 2 * length tr"
  by (simp add: mirror_train_def)

lemma mirror_train_nth:
  "i < length tr \<Longrightarrow>
     mirror_train tr ! i = tr ! i \<and> mirror_train tr ! (length tr + i) = exchange (tr ! i)"
  by (simp add: mirror_train_def nth_append)

lemma binary_in_chr_range:
  "binary_choices xs \<Longrightarrow> list_all (\<lambda>s. in_chr_range (choice s)) xs"
  by (auto simp: binary_choices_def in_chr_range_def list_all_iff)

lemma binary_mirror_train: "binary_choices tr \<Longrightarrow> binary_choices (mirror_train tr)"
  by (auto simp: binary_choices_def mirror_train_def exchange_def list_all_iff)

lemma shape_by_choice_binary:
  assumes "binary_choices tr" and "binary_choices va" and "binary_choices te"
  shows "shape_by_choice tr va te
         = Inr (map lettered (mirror_train tr), map lettered va, map lettered te)"
proof -
  have "list_all (\<lambda>s. in_chr_range (choice s)) (mirror_train tr @ te @ va)"
    using assms binary_in_chr_range [of "mirror_train tr"] binary_in_chr_range [of va]
      binary_in_chr_range [of te] binary_mirror_train [of tr]
    by simp
  then have "first_rejected (mirror_train tr @ te @ va) = None"
    by (simp only: first_rejected_None)
  then show ?thesis
    by (simp add: shape_by_choice_eq)
qed

lemma binary_letter:
  "binary_choices xs \<Longrightarrow> s \<in> set xs \<Longrightarrow>
     choice (lettered s) = (if choice s = 0 then ustr '' A'' else ustr '' B'')"
  by (auto simp: binary_choices_def lettered_def ustr_def list_all_iff)

text \<open>
  C1. The training list that is shaped is the filtered training list followed by its
  exchanged copy, twice as long: the copy of the \<open>i\<close>-th sample has the two outputs
  swapped and the choice \<open>1 - choice\<close>. With choices in \<open>{0, 1}\<close> the shaper
  succeeds and every choice is mapped to the two-character string \<open>" A"\<close> (choice 0)
  or \<open>" B"\<close> (choice 1). Whenever the shaper succeeds, the shaped training list has
  twice the length of the training list, and the validation and test lists keep their
  length and their samples, only the choice being mapped: they are not mirrored.
\<close>

theorem letter_choice_shaper_mirrors_train:
  "length (mirror_train tr) = 2 * length tr \<and>
   (\<forall>i < length tr.
      mirror_train tr ! i = tr ! i \<and>
      choice (mirror_train tr ! (length tr + i)) = 1 - choice (tr ! i) \<and>
      output_A (mirror_train tr ! (length tr + i)) = output_B (tr ! i) \<and>
      output_B (mirror_train tr ! (length tr + i)) = output_A (tr ! i) \<and>
      instruction (mirror_train tr ! (length tr + i)) = instruction (tr ! i)) \<and>
   (binary_choices tr \<and> binary_choices va \<and> binary_choices te \<longrightarrow>
      shape_by_choice tr va te
        = Inr (map lettered (mirror_train tr), map lettered va, map lettered te) \<and>
      (\<forall>s \<in> set (mirror_train tr @ va @ te).
         choice (lettered s) = (if choice s = 0 then ustr '' A'' else ustr '' B''))) \<and>
   (shape_by_choice tr va te = Inr (tr', va', te') \<longrightarrow>
      tr' = map lettered (mirror_train tr) \<and> length tr' = 2 * length tr \<and>
      va' = map lettered va \<and> length va' = length va \<and>
      te' = map lettered te \<and> length te' = length te)"
proof (intro conjI allI impI ballI)
  show "length (mirror_train tr) = 2 * length tr"
    by (rule length_mirror_train)
next
  fix i assume "i < length tr"
  then show "mirror_train tr ! i = tr ! i"
    and "choice (mirror_train tr ! (length tr + i)) = 1 - choice (tr ! i)"
    and "output_A (mirror_train tr ! (length tr + i)) = output_B (tr ! i)"
    and "output_B (mirror_train tr ! (length tr + i)) = output_A (tr ! i)"
    and "instruction (mirror_train tr ! (length tr + i)) = instruction (tr ! i)"
    by (simp_all add: mirror_train_nth exchange_def)
next
  assume b: "binary_choices tr \<and> binary_choices va \<and> binary_choices te"
  then show "shape_by_choice tr va te
        = Inr (map lettered (mirror_train tr), map lettered va, map lettered te)"
    by (simp add: shape_by_choice_binary)
  fix s assume "s \<in> set (mirror_train tr @ va @ te)"
  then show "choice (lettered s) = (if choice s = 0 then ustr '' A'' else ustr '' B'')"
    using b binary_letter [of "mirror_train tr" s] binary_letter [of va s]
      binary_letter [of te s] binary_mirror_train [of tr]
    by auto
next
  assume r: "shape_by_choice tr va te = Inr (tr', va', te')"
  then show "tr' = map lettered (mirror_train tr)" and "va' = map lettered va"
    and "te' = map lettered te"
    by (simp_all add: shape_by_choice_Inr)
  then show "length tr' = 2 * length tr" and "length va' = length va"
    and "length te' = length te"
    by (simp_all add: length_mirror_train)
qed

theorem letter_choice_shaper_mirrors_train_witness:
  "binary_choices [sample_a, sample_b] \<and> binary_choices [sample_b] \<and> binary_choices [sample_a] \<and>
   shape_by_choice [sample_a, sample_b] [sample_b] [sample_a]
     = Inr ([\<lparr>instruction = ''q1'', category = ''Client_0'', output_A = ''a'',
               output_B = ''x'', choice = ustr '' A'', domain = Some ''askphysics''\<rparr>,
             \<lparr>instruction = ''q2'', category = ''legaladvice'', output_A = ''b'',
               output_B = ''y'', choice = ustr '' B'', domain = None\<rparr>,
             \<lparr>instruction = ''q1'', category = ''Client_0'', output_A = ''x'',
               output_B = ''a'', choice = ustr '' B'', domain = Some ''askphysics''\<rparr>,
             \<lparr>instruction = ''q2'', category = ''legaladvice'', output_A = ''y'',
               output_B = ''b'', choice = ustr '' A'', domain = None\<rparr>],
            [\<lparr>instruction = ''q2'', category = ''legaladvice'', output_A = ''b'',
               output_B = ''y'', choice = ustr '' B'', domain = None\<rparr>],
            [\<lparr>instruction = ''q1'', category = ''Client_0'', output_A = ''a'',
               output_B = ''x'', choice = ustr '' A'', domain = Some ''askphysics''\<rparr>]) \<and>
   (0::nat) < length [sample_a, sample_b] \<and>
   choice (mirror_train [sample_a, sample_b] ! (length [sample_a, sample_b] + 0))
     = 1 - choice ([sample_a, sample_b] ! 0)"
proof -
  have b: "binary_choices [sample_a, sample_b] \<and> binary_choices [sample_b]
           \<and> binary_choices [sample_a]"
    by (simp add: binary_choices_def sample_a_def sample_b_def)
  have l: "(0::nat) < length [sample_a, sample_b]" by simp
  note t = letter_choice_shaper_mirrors_train
    [of "[sample_a, sample_b]" "[sample_b]" "[sample_a]"]
  from t b have "shape_by_choice [sample_a, sample_b] [sample_b] [sample_a]
      = Inr (map lettered (mirror_train [sample_a, sample_b]), map lettered [sample_b],
             map lettered [sample_a])"
    by blast
  moreover from t l
  have "choice (mirror_train [sample_a, sample_b] ! (length [sample_a, sample_b] + 0))
     = 1 - choice ([sample_a, sample_b] ! 0)"
    by blast
  ultimately show ?thesis
    using b l
    by (simp add: lettered_def mirror_train_def exchange_def sample_a_def sample_b_def
        ustr_def)
qed

text \<open>
  C4, as the code has it. Nothing checks the choice before the letter mapping: a
  choice \<open>c\<close> with \<open>-65 \<le> c < 1114047\<close> is mapped to the space followed by the
  character of code point \<open>c + 65\<close>, whatever \<open>c\<close> is, and the letters \<open>" A"\<close> and
  \<open>" B"\<close> come from the choices 0 and 1 only. The shaper fails only with the error
  that \<open>chr\<close> raises during the mapping, at the first choice outside that range in
  the order mirrored training list, test list, validation list: a \<open>ValueError\<close>
  when \<open>c + 65\<close> fits a C \<open>int\<close>, and an \<open>OverflowError\<close> when it does not.
\<close>

theorem choice_letter_without_validation:
  "choice_letter c
     = (if in_chr_range c then Inr [32, nat (c + 65)] else Inl (chr_failure c)) \<and>
   (in_chr_range c \<longrightarrow>
      ([32, nat (c + 65)] = ustr '' A'' \<longleftrightarrow> c = 0) \<and>
      ([32, nat (c + 65)] = ustr '' B'' \<longleftrightarrow> c = 1)) \<and>
   chr_failure c
     = (if - 2147483648 \<le> c + 65 \<and> c + 65 \<le> 2147483647
        then ValueError ''chr() arg not in range(0x110000)'' else OverflowError) \<and>
   shape_by_choice tr va te
     = (case first_rejected (mirror_train tr @ te @ va) of
          None \<Rightarrow> Inr (map lettered (mirror_train tr), map lettered va, map lettered te)
        | Some s \<Rightarrow> Inl (chr_failure (choice s)))"
proof -
  have 1: "choice_letter c
     = (if in_chr_range c then Inr [32, nat (c + 65)] else Inl (chr_failure c))"
    by (rule choice_letter_eq)
  have 2: "in_chr_range c \<longrightarrow>
      ([32, nat (c + 65)] = ustr '' A'' \<longleftrightarrow> c = 0) \<and>
      ([32, nat (c + 65)] = ustr '' B'' \<longleftrightarrow> c = 1)"
    by (auto simp: ustr_def in_chr_range_def)
  have 3: "chr_failure c
     = (if - 2147483648 \<le> c + 65 \<and> c + 65 \<le> 2147483647
        then ValueError ''chr() arg not in range(0x110000)'' else OverflowError)"
    by (simp add: chr_failure_def)
  have 4: "shape_by_choice tr va te
     = (case first_rejected (mirror_train tr @ te @ va) of
          None \<Rightarrow> Inr (map lettered (mirror_train tr), map lettered va, map lettered te)
        | Some s \<Rightarrow> Inl (chr_failure (choice s)))"
    by (rule shape_by_choice_eq)
  show ?thesis
    by (rule conjI 1 2 3 4)+
qed

theorem choice_letter_without_validation_witness:
  "in_chr_range 2 \<and> choice_letter 2 = Inr (ustr '' C'') \<and> ustr '' C'' \<noteq> ustr '' A'' \<and>
   ustr '' C'' \<noteq> ustr '' B'' \<and>
   choice_letter (- 66) = Inl (ValueError ''chr() arg not in range(0x110000)'') \<and>
   choice_letter 2147483583 = Inl OverflowError \<and>
   shape_by_choice [sample_a] [sample_low] [sample_huge] = Inl OverflowError \<and>
   shape_by_choice [sample_a] [sample_low] [sample_b]
     = Inl (ValueError ''chr() arg not in range(0x110000)'')"
proof -
  have r: "in_chr_range 2" by (simp add: in_chr_range_def)
  have n: "\<not> in_chr_range (- 66)" "\<not> in_chr_range 2147483583"
    by (simp_all add: in_chr_range_def)
  have f: "chr_failure (- 66) = ValueError ''chr() arg not in range(0x110000)''"
    "chr_failure 2147483583 = OverflowError"
    by (simp_all add: chr_failure_def)
  have g: "first_rejected (mirror_train [sample_a] @ [sample_huge] @ [sample_low])
           = Some sample_huge"
    "first_rejected (mirror_train [sample_a] @ [sample_b] @ [sample_low])
           = Some sample_low"
    by (simp_all add: first_rejected_def mirror_train_def exchange_def in_chr_range_def
        sample_a_def sample_b_def sample_low_def sample_huge_def)
  have c: "choice sample_huge = 2147483583" "choice sample_low = - 66"
    by (simp_all add: sample_low_def sample_huge_def)
  note t = choice_letter_without_validation [of 2 "[]" "[]" "[]"]
  note u = choice_letter_without_validation
    [of "- 66" "[sample_a]" "[sample_low]" "[sample_huge]"]
  note v = choice_letter_without_validation
    [of 2147483583 "[sample_a]" "[sample_low]" "[sample_b]"]
  have 1: "choice_letter 2 = Inr (ustr '' C'')"
    using t [THEN conjunct1] r by (simp add: ustr_def)
  have 2: "choice_letter (- 66) = Inl (ValueError ''chr() arg not in range(0x110000)'')"
    using u [THEN conjunct1] n f by simp
  have 3: "choice_letter 2147483583 = Inl OverflowError"
    using v [THEN conjunct1] n f by simp
  have 4: "shape_by_choice [sample_a] [sample_low] [sample_huge] = Inl OverflowError"
    using u [THEN conjunct2, THEN conjunct2, THEN conjunct2]
    unfolding g option.case c f .
  have 5: "shape_by_choice [sample_a] [sample_low] [sample_b]
           = Inl (ValueError ''chr() arg not in range(0x110000)'')"
    using v [THEN conjunct2, THEN conjunct2, THEN conjunct2]
    unfolding g option.case c f .
  have 6: "ustr '' C'' \<noteq> ustr '' A''" "ustr '' C'' \<noteq> ustr '' B''"
    by (simp_all add: ustr_def)
  show ?thesis
    using r 1 2 3 4 5 6 by (simp only: simp_thms)
qed

text \<open>
  The claim C4 as worded fails: a test record with choice 2 raises nothing and is
  given the letter \<open>" C"\<close>; a training record with choice 2 gives \<open>" C"\<close> and, for
  its exchanged copy with choice \<open>-1\<close>, \<open>" @"\<close>.
\<close>

theorem choice_outside_01_counterexample:
  "choice sample_c = 2 \<and>
   shape_by_choice [] [] [sample_c]
     = Inr ([], [],
            [\<lparr>instruction = ''q3'', category = ''askhr'', output_A = ''c'',
               output_B = ''z'', choice = ustr '' C'', domain = None\<rparr>]) \<and>
   shape_by_choice [sample_c] [] []
     = Inr ([\<lparr>instruction = ''q3'', category = ''askhr'', output_A = ''c'',
               output_B = ''z'', choice = ustr '' C'', domain = None\<rparr>,
             \<lparr>instruction = ''q3'', category = ''askhr'', output_A = ''z'',
               output_B = ''c'', choice = ustr '' @'', domain = None\<rparr>], [], [])"
  by (simp add: shape_by_choice_eq first_rejected_def mirror_train_def exchange_def
      lettered_def in_chr_range_def sample_c_def ustr_def)

section \<open>\<open>shp_dataset\<close>: client labels and token budget\<close>

lemma enrich_eq:
  "enrich m xs
   = (case find (\<lambda>s. m (instruction s) = None) xs of
        Some s \<Rightarrow> Inl (KeyError (instruction s))
      | None \<Rightarrow> Inr (map (relabel_by m) xs))"
  by (induction xs)
    (auto simp: relabel_by_def relabel_def client_label_def split: option.splits)

lemma within_budget_token_sum: "within_budget tok s \<longleftrightarrow> token_sum tok s \<le> 512"
  by (simp add: within_budget_def token_sum_def Let_def)

lemma token_sum_relabel: "token_sum tok (relabel i s) = token_sum tok s"
  by (simp add: token_sum_def relabel_def)

lemma filter_budget_relabel:
  "filter (within_budget tok) (map (relabel_by m) xs)
   = map (relabel_by m) (filter (within_budget tok) xs)"
  by (induction xs) (auto simp: within_budget_token_sum relabel_by_def token_sum_relabel)

lemma shp_dataset_eq:
  assumes "download_shp_cmpr (hub ev) data_root w = (w1, Inr (tr, va, te))"
    and "download_shp (hub ev) data_root w1 = (w2, Inr (ins, uv, ut))"
  shows "shp_dataset ev data_root num_clients w
         = (case find (\<lambda>s. client_map ev num_clients ins (instruction s) = None) tr of
              Some s \<Rightarrow> (w2, Inl (KeyError (instruction s)))
            | None \<Rightarrow>
                (w2\<lparr>stdout := stdout w2 @ client_report num_clients
                      (map (relabel_by (client_map ev num_clients ins))
                         (filter (within_budget (tokenizer ev)) tr))\<rparr>,
                 Inr (map (relabel_by (client_map ev num_clients ins))
                        (filter (within_budget (tokenizer ev)) tr), va, te)))"
  using assms
  by (simp add: shp_dataset_def Let_def enrich_eq client_map_def [symmetric]
      filter_budget_relabel split: option.splits)

lemma shp_dataset_Inr:
  assumes "shp_dataset ev data_root num_clients w = (w', Inr r)"
  shows "\<exists>w1 tr va te w2 ins uv ut.
           download_shp_cmpr (hub ev) data_root w = (w1, Inr (tr, va, te)) \<and>
           download_shp (hub ev) data_root w1 = (w2, Inr (ins, uv, ut))"
  using assms
  by (auto simp: shp_dataset_def split: prod.splits sum.splits)

subsection \<open>The small corpus, run\<close>

lemma hub_env_ex: "hub env_ex = Inr hub_ex"
  by (simp add: env_ex_def)

lemma cmpr_records_ex:
  "cmpr_records (train hub_ex) = train_ex \<and> cmpr_records (validation hub_ex) = val_ex
   \<and> cmpr_records (test hub_ex) = test_ex"
  by (simp add: cmpr_records_def cmpr_record_def hub_ex_def train_ex_def val_ex_def
      test_ex_def domain_prefix_def)

lemma download_shp_cmpr_ex:
  "download_shp_cmpr (Inr hub_ex) ''data'' world0 = (world1, Inr (train_ex, val_ex, test_ex))"
  unfolding world1_def
  by (simp add: prod_eq_iff download_shp_cmpr_def Let_def cmpr_records_ex world0_def
      path_exists_def file_at_def isdir_def path_join_def)

lemma files_world1:
  "files world1 =
     [(''data/shp_cmpr_test.jsonl'', CmprJsonl test_ex),
      (''data/shp_cmpr_val.jsonl'', CmprJsonl val_ex),
      (''data/shp_cmpr_train.jsonl'', CmprJsonl train_ex)]"
  unfolding world1_def
  by (simp add: download_shp_cmpr_def Let_def cmpr_records_ex world0_def
      path_exists_def file_at_def isdir_def write_file_def path_join_def)

lemma world1_not_cached: "\<not> shp_rlhf_cached world1 ''data''"
  by (simp add: shp_rlhf_cached_def path_exists_def file_at_def isdir_def files_world1
      path_join_def)

lemma download_shp_world1:
  "download_shp (Inr hub_ex) ''data'' world1
     = (world2,
        Inr ([\<lparr>instruction = ''q1'', category = ''askphysics''\<rparr>,
              \<lparr>instruction = ''q2'', category = ''legaladvice''\<rparr>],
             [\<lparr>instruction = ''q3'', category = ''askhr''\<rparr>],
             [\<lparr>instruction = ''q4'', category = ''askhr''\<rparr>,
              \<lparr>instruction = ''q5'', category = ''askvet''\<rparr>]))"
  using download_shp_miss [OF world1_not_cached, of hub_ex]
  by (simp add: dedup_across_splits_ex prod_eq_iff world2_def)

lemma client_map_ex:
  "client_map env_ex 2
     [\<lparr>instruction = ''q1'', category = ''askphysics''\<rparr>,
      \<lparr>instruction = ''q2'', category = ''legaladvice''\<rparr>]
   = [''q1'' \<mapsto> 0, ''q2'' \<mapsto> 1]"
  by (simp add: client_map_def env_ex_def)

lemma token_sum_ex:
  "map (token_sum char_tokenizer) train_ex = [400, 600, 400]"
  by (simp add: token_sum_def char_tokenizer_def train_ex_def)

lemma download_shp_cmpr_env_ex:
  "download_shp_cmpr (hub env_ex) ''data'' world0
     = (world1, Inr (train_ex, val_ex, test_ex))"
  by (simp add: hub_env_ex download_shp_cmpr_ex)

lemma download_shp_env_ex:
  "download_shp (hub env_ex) ''data'' world1
     = (world2,
        Inr ([\<lparr>instruction = ''q1'', category = ''askphysics''\<rparr>,
              \<lparr>instruction = ''q2'', category = ''legaladvice''\<rparr>],
             [\<lparr>instruction = ''q3'', category = ''askhr''\<rparr>],
             [\<lparr>instruction = ''q4'', category = ''askhr''\<rparr>,
              \<lparr>instruction = ''q5'', category = ''askvet''\<rparr>]))"
  by (simp add: hub_env_ex download_shp_world1)

lemma tokenizer_env_ex: "tokenizer env_ex = char_tokenizer"
  by (simp add: env_ex_def)

lemma find_unassigned_ex:
  "find (\<lambda>s. [''q1'' \<mapsto> 0::nat, ''q2'' \<mapsto> 1] (instruction s) = None) train_ex = None"
  by (simp add: train_ex_def)

lemma filter_budget_ex:
  "filter (\<lambda>s. token_sum char_tokenizer s \<le> 512) train_ex
   = [\<lparr>instruction = ''q1'', category = ''askphysics'', output_A = ''a'',
       output_B = ''x'', choice = 0, domain = None\<rparr>,
      \<lparr>instruction = ''q1'', category = ''askphysics'', output_A = ''c'',
       output_B = ''z'', choice = 1, domain = None\<rparr>]"
  by (simp add: token_sum_def char_tokenizer_def train_ex_def)

lemma relabel_ex:
  "map (relabel_by [''q1'' \<mapsto> 0, ''q2'' \<mapsto> 1])
     [\<lparr>instruction = ''q1'', category = ''askphysics'', output_A = ''a'',
       output_B = ''x'', choice = 0::int, domain = None\<rparr>,
      \<lparr>instruction = ''q1'', category = ''askphysics'', output_A = ''c'',
       output_B = ''z'', choice = 1, domain = None\<rparr>]
   = [\<lparr>instruction = ''q1'', category = ''Client_0'', output_A = ''a'',
       output_B = ''x'', choice = 0, domain = Some ''askphysics''\<rparr>,
      \<lparr>instruction = ''q1'', category = ''Client_0'', output_A = ''c'',
       output_B = ''z'', choice = 1, domain = Some ''askphysics''\<rparr>]"
  by (simp add: relabel_by_def relabel_def str_int_def)

lemma within_budget_fun: "within_budget tok = (\<lambda>s. token_sum tok s \<le> 512)"
  by (rule ext) (rule within_budget_token_sum)

lemma shp_dataset_ex:
  "shp_dataset env_ex ''data'' 2 world0
     = (fst (shp_dataset env_ex ''data'' 2 world0),
        Inr ([\<lparr>instruction = ''q1'', category = ''Client_0'', output_A = ''a'',
               output_B = ''x'', choice = 0, domain = Some ''askphysics''\<rparr>,
              \<lparr>instruction = ''q1'', category = ''Client_0'', output_A = ''c'',
               output_B = ''z'', choice = 1, domain = Some ''askphysics''\<rparr>],
             val_ex, test_ex))"
  unfolding shp_dataset_eq [OF download_shp_cmpr_env_ex download_shp_env_ex]
    client_map_ex find_unassigned_ex tokenizer_env_ex within_budget_fun
    filter_budget_ex relabel_ex
  by simp

text \<open>
  C2. When \<open>shp_dataset\<close> returns, its training list is made of exactly the
  comparison records of the training split whose three token counts sum to at most
  512, in their order and relabelled for their client; each returned training record
  is within the budget; and the validation and test lists are the loaded ones,
  whatever their token counts.
\<close>

theorem token_budget_filters_train_only:
  assumes "download_shp_cmpr (hub ev) data_root w = (w1, Inr (tr, va, te))"
    and "download_shp (hub ev) data_root w1 = (w2, Inr (ins, uv, ut))"
    and "shp_dataset ev data_root num_clients w = (w', Inr (tr', va', te'))"
  shows "tr' = map (relabel_by (client_map ev num_clients ins))
                 (filter (\<lambda>s. token_sum (tokenizer ev) s \<le> 512) tr) \<and>
         (\<forall>s \<in> set tr'. token_sum (tokenizer ev) s \<le> 512) \<and>
         va' = va \<and> te' = te"
proof -
  have r: "tr' = map (relabel_by (client_map ev num_clients ins))
                  (filter (within_budget (tokenizer ev)) tr) \<and> va' = va \<and> te' = te"
    using assms(3) unfolding shp_dataset_eq [OF assms(1) assms(2)]
    by (simp split: option.splits)
  have "\<forall>s \<in> set tr'. token_sum (tokenizer ev) s \<le> 512"
    using r by (auto simp: within_budget_fun relabel_by_def token_sum_relabel)
  then show ?thesis using r by (simp add: within_budget_fun)
qed

theorem token_budget_filters_train_only_witness:
  "map (token_sum (tokenizer env_ex)) train_ex = [400, 600, 400] \<and>
   snd (shp_dataset env_ex ''data'' 2 world0)
     = Inr ([\<lparr>instruction = ''q1'', category = ''Client_0'', output_A = ''a'',
               output_B = ''x'', choice = 0, domain = Some ''askphysics''\<rparr>,
             \<lparr>instruction = ''q1'', category = ''Client_0'', output_A = ''c'',
               output_B = ''z'', choice = 1, domain = Some ''askphysics''\<rparr>],
            val_ex, test_ex) \<and>
   map (relabel_by (client_map env_ex 2
          [\<lparr>instruction = ''q1'', category = ''askphysics''\<rparr>,
           \<lparr>instruction = ''q2'', category = ''legaladvice''\<rparr>]))
     (filter (\<lambda>s. token_sum (tokenizer env_ex) s \<le> 512) train_ex)
     = [\<lparr>instruction = ''q1'', category = ''Client_0'', output_A = ''a'',
               output_B = ''x'', choice = 0, domain = Some ''askphysics''\<rparr>,
             \<lparr>instruction = ''q1'', category = ''Client_0'', output_A = ''c'',
               output_B = ''z'', choice = 1, domain = Some ''askphysics''\<rparr>]"
proof -
  have "map (token_sum (tokenizer env_ex)) train_ex = [400, 600, 400]"
    by (simp add: tokenizer_env_ex token_sum_ex)
  moreover have "snd (shp_dataset env_ex ''data'' 2 world0)
     = Inr ([\<lparr>instruction = ''q1'', category = ''Client_0'', output_A = ''a'',
               output_B = ''x'', choice = 0, domain = Some ''askphysics''\<rparr>,
             \<lparr>instruction = ''q1'', category = ''Client_0'', output_A = ''c'',
               output_B = ''z'', choice = 1, domain = Some ''askphysics''\<rparr>],
            val_ex, test_ex)"
    using shp_dataset_ex by (metis snd_conv)
  moreover have "[\<lparr>instruction = ''q1'', category = ''Client_0'', output_A = ''a'',
               output_B = ''x'', choice = 0, domain = Some ''askphysics''\<rparr>,
             \<lparr>instruction = ''q1'', category = ''Client_0'', output_A = ''c'',
               output_B = ''z'', choice = 1, domain = Some ''askphysics''\<rparr>]
     = map (relabel_by (client_map env_ex 2
          [\<lparr>instruction = ''q1'', category = ''askphysics''\<rparr>,
           \<lparr>instruction = ''q2'', category = ''legaladvice''\<rparr>]))
     (filter (\<lambda>s. token_sum (tokenizer env_ex) s \<le> 512) train_ex)"
    using token_budget_filters_train_only
      [OF download_shp_cmpr_env_ex download_shp_env_ex shp_dataset_ex]
    by blast
  ultimately show ?thesis by (simp only: simp_thms)
qed

subsection \<open>A run with stale instruction files\<close>

lemma download_shp_cmpr_stale:
  "download_shp_cmpr (hub env_ex) ''data'' world_stale
     = (world_stale1, Inr (train_ex, val_ex, test_ex))"
  unfolding world_stale1_def hub_env_ex
  by (simp add: prod_eq_iff download_shp_cmpr_def Let_def cmpr_records_ex world_stale_def
      path_exists_def file_at_def isdir_def path_join_def)

lemma files_world_stale1:
  "files world_stale1 =
     [(''data/shp_cmpr_test.jsonl'', CmprJsonl test_ex),
      (''data/shp_cmpr_val.jsonl'', CmprJsonl val_ex),
      (''data/shp_cmpr_train.jsonl'', CmprJsonl train_ex),
      (''data/shp_rlhf_train.jsonl'',
        InstJsonl [\<lparr>instruction = ''q1'', category = ''askphysics''\<rparr>]),
      (''data/shp_rlhf_val.jsonl'', InstJsonl []),
      (''data/shp_rlhf_test.jsonl'', InstJsonl [])]"
  unfolding world_stale1_def
  by (simp add: download_shp_cmpr_def Let_def cmpr_records_ex world_stale_def
      path_exists_def file_at_def isdir_def write_file_def path_join_def)

lemma download_shp_stale:
  "download_shp (hub env_ex) ''data'' world_stale1
     = (world_stale1,
        Inr ([\<lparr>instruction = ''q1'', category = ''askphysics''\<rparr>], [], []))"
  unfolding hub_env_ex
  by (simp add: download_shp_def Let_def path_exists_def file_at_def files_world_stale1
      path_join_def load_jsonl_inst_def read_file_def)

lemma client_map_stale:
  "client_map env_ex 2 [\<lparr>instruction = ''q1'', category = ''askphysics''\<rparr>]
   = [''q1'' \<mapsto> 0]"
  by (simp add: client_map_def env_ex_def)

lemma find_unassigned_stale:
  "find (\<lambda>s. [''q1'' \<mapsto> 0::nat] (instruction s) = None) train_ex
   = Some \<lparr>instruction = ''q2'', category = ''legaladvice'', output_A = ''bbb'',
            output_B = ''y'', choice = 1, domain = None\<rparr>"
  by (simp add: train_ex_def)

text \<open>
  C3, as the code has it. With the comparison records and the training instructions
  loaded, \<open>shp_dataset\<close> fails with the built-in \<open>KeyError\<close> on the instruction of
  the first training record that the client map does not hold; there is no error of
  its own for an unassigned instruction. When every training instruction is mapped,
  the function returns, and a record whose instruction is mapped to client \<open>i\<close>
  has the category \<open>Client_i\<close>, its original category in \<open>domain\<close>, and its other
  fields unchanged.
\<close>

theorem unassigned_instruction_raises_key_error:
  assumes "download_shp_cmpr (hub ev) data_root w = (w1, Inr (tr, va, te))"
    and "download_shp (hub ev) data_root w1 = (w2, Inr (ins, uv, ut))"
  shows "(\<forall>s. find (\<lambda>s. client_map ev num_clients ins (instruction s) = None) tr = Some s
            \<longrightarrow> shp_dataset ev data_root num_clients w
                  = (w2, Inl (KeyError (instruction s)))) \<and>
         (find (\<lambda>s. client_map ev num_clients ins (instruction s) = None) tr = None
            \<longrightarrow> snd (shp_dataset ev data_root num_clients w)
                  = Inr (map (relabel_by (client_map ev num_clients ins))
                           (filter (\<lambda>s. token_sum (tokenizer ev) s \<le> 512) tr), va, te)) \<and>
         (\<forall>s i. client_map ev num_clients ins (instruction s) = Some i
            \<longrightarrow> category (relabel_by (client_map ev num_clients ins) s)
                    = ''Client_'' @ str_int (int i) \<and>
                domain (relabel_by (client_map ev num_clients ins) s) = Some (category s) \<and>
                instruction (relabel_by (client_map ev num_clients ins) s) = instruction s \<and>
                output_A (relabel_by (client_map ev num_clients ins) s) = output_A s \<and>
                output_B (relabel_by (client_map ev num_clients ins) s) = output_B s \<and>
                choice (relabel_by (client_map ev num_clients ins) s) = choice s)"
proof (intro conjI allI impI)
  fix s
  assume "find (\<lambda>s. client_map ev num_clients ins (instruction s) = None) tr = Some s"
  then show "shp_dataset ev data_root num_clients w = (w2, Inl (KeyError (instruction s)))"
    by (simp add: shp_dataset_eq [OF assms])
next
  assume "find (\<lambda>s. client_map ev num_clients ins (instruction s) = None) tr = None"
  then show "snd (shp_dataset ev data_root num_clients w)
      = Inr (map (relabel_by (client_map ev num_clients ins))
               (filter (\<lambda>s. token_sum (tokenizer ev) s \<le> 512) tr), va, te)"
    by (simp add: shp_dataset_eq [OF assms] within_budget_fun)
next
  fix s :: "int sample" and i
  assume "client_map ev num_clients ins (instruction s) = Some i"
  then show "category (relabel_by (client_map ev num_clients ins) s)
               = ''Client_'' @ str_int (int i)"
    and "domain (relabel_by (client_map ev num_clients ins) s) = Some (category s)"
    and "instruction (relabel_by (client_map ev num_clients ins) s) = instruction s"
    and "output_A (relabel_by (client_map ev num_clients ins) s) = output_A s"
    and "output_B (relabel_by (client_map ev num_clients ins) s) = output_B s"
    and "choice (relabel_by (client_map ev num_clients ins) s) = choice s"
    by (simp_all add: relabel_by_def relabel_def)
qed

theorem unassigned_instruction_raises_key_error_witness:
  "find (\<lambda>s. client_map env_ex 2 [\<lparr>instruction = ''q1'', category = ''askphysics''\<rparr>]
              (instruction s) = None) train_ex
     = Some \<lparr>instruction = ''q2'', category = ''legaladvice'', output_A = ''bbb'',
              output_B = ''y'', choice = 1, domain = None\<rparr> \<and>
   shp_dataset env_ex ''data'' 2 world_stale = (world_stale1, Inl (KeyError ''q2'')) \<and>
   find (\<lambda>s. client_map env_ex 2
                [\<lparr>instruction = ''q1'', category = ''askphysics''\<rparr>,
                 \<lparr>instruction = ''q2'', category = ''legaladvice''\<rparr>]
              (instruction s) = None) train_ex = None \<and>
   snd (shp_dataset env_ex ''data'' 2 world0)
     = Inr ([\<lparr>instruction = ''q1'', category = ''Client_0'', output_A = ''a'',
               output_B = ''x'', choice = 0, domain = Some ''askphysics''\<rparr>,
             \<lparr>instruction = ''q1'', category = ''Client_0'', output_A = ''c'',
               output_B = ''z'', choice = 1, domain = Some ''askphysics''\<rparr>],
            val_ex, test_ex)"
proof -
  note stale = unassigned_instruction_raises_key_error
    [OF download_shp_cmpr_stale download_shp_stale, of 2]
  note fresh = unassigned_instruction_raises_key_error
    [OF download_shp_cmpr_env_ex download_shp_env_ex, of 2]
  have f1: "find (\<lambda>s. client_map env_ex 2 [\<lparr>instruction = ''q1'', category = ''askphysics''\<rparr>]
              (instruction s) = None) train_ex
     = Some \<lparr>instruction = ''q2'', category = ''legaladvice'', output_A = ''bbb'',
              output_B = ''y'', choice = 1, domain = None\<rparr>"
    by (simp only: client_map_stale find_unassigned_stale)
  have f2: "find (\<lambda>s. client_map env_ex 2
                [\<lparr>instruction = ''q1'', category = ''askphysics''\<rparr>,
                 \<lparr>instruction = ''q2'', category = ''legaladvice''\<rparr>]
              (instruction s) = None) train_ex = None"
    by (simp only: client_map_ex find_unassigned_ex)
  have "shp_dataset env_ex ''data'' 2 world_stale = (world_stale1, Inl (KeyError ''q2''))"
    using stale f1 by simp
  moreover have "snd (shp_dataset env_ex ''data'' 2 world0)
     = Inr ([\<lparr>instruction = ''q1'', category = ''Client_0'', output_A = ''a'',
               output_B = ''x'', choice = 0, domain = Some ''askphysics''\<rparr>,
             \<lparr>instruction = ''q1'', category = ''Client_0'', output_A = ''c'',
               output_B = ''z'', choice = 1, domain = Some ''askphysics''\<rparr>],
            val_ex, test_ex)"
    using fresh f2
    by (simp only: client_map_ex tokenizer_env_ex filter_budget_ex relabel_ex simp_thms)
  ultimately show ?thesis using f1 f2 by (simp only: simp_thms)
qed

text \<open>
  The claim C3 as worded fails in its first part: with instruction files that hold
  \<open>q1\<close> alone, the training record of \<open>q2\<close> has no client, and the pipeline stops
  with the \<open>KeyError\<close> of the dictionary lookup.
\<close>

theorem unassigned_instruction_counterexample:
  "snd (shp_dataset env_ex ''data'' 2 world_stale) = Inl (KeyError ''q2'')"
  unfolding shp_dataset_eq [OF download_shp_cmpr_stale download_shp_stale]
    client_map_stale find_unassigned_stale
  by simp

section \<open>The tokenized-dataset cache\<close>

subsection \<open>The three paths of a loader differ\<close>

lemma path_join_same_token:
  assumes "a \<noteq> []" and "hd a \<noteq> CHR ''/''" and "b \<noteq> []" and "hd b \<noteq> CHR ''/''"
  shows "path_join r (t @ a) = path_join r (t @ b) \<longleftrightarrow> a = b"
proof (cases t)
  case Nil
  then show ?thesis using assms by (auto simp: path_join_def)
next
  case (Cons c cs)
  then show ?thesis by (auto simp: path_join_def)
qed

lemma comparison_paths_distinct:
  assumes "comparison_paths ev data_root num_clients = (p1, p2, p3)"
  shows "p1 \<noteq> p2 \<and> p1 \<noteq> p3 \<and> p2 \<noteq> p3"
proof -
  let ?t = "basename (name_or_path ev)"
  have p: "p1 = path_join data_root (?t @ (''_train_'' @ str_int num_clients @ ''.pickle''))"
    "p2 = path_join data_root (?t @ ''_val.pickle'')"
    "p3 = path_join data_root (?t @ ''_test.pickle'')"
    using assms by (simp_all add: comparison_paths_def Let_def)
  show ?thesis
    unfolding p by (simp add: path_join_same_token)
qed

lemma choice_paths_distinct:
  assumes "choice_paths ev data_root num_clients = (p1, p2, p3)"
  shows "p1 \<noteq> p2 \<and> p1 \<noteq> p3 \<and> p2 \<noteq> p3"
proof -
  let ?t = "basename (name_or_path ev)"
  have p: "p1 = path_join data_root
                  (?t @ (''_train_choice_'' @ str_int num_clients @ ''.pickle''))"
    "p2 = path_join data_root (?t @ ''_val_choice.pickle'')"
    "p3 = path_join data_root (?t @ ''_test_choice.pickle'')"
    using assms by (simp_all add: choice_paths_def Let_def)
  show ?thesis
    unfolding p by (simp add: path_join_same_token)
qed

lemma files_three_writes:
  assumes "p1 \<noteq> p2" and "p1 \<noteq> p3" and "p2 \<noteq> p3"
  shows "file_at (write_file p3 c3 (write_file p2 c2 (write_file p1 c1 w))) p1 = Some c1"
    and "file_at (write_file p3 c3 (write_file p2 c2 (write_file p1 c1 w))) p2 = Some c2"
    and "file_at (write_file p3 c3 (write_file p2 c2 (write_file p1 c1 w))) p3 = Some c3"
  using assms by (simp_all add: write_file_def file_at_def)

subsection \<open>The comparison loader\<close>

lemma comparison_cache_hit:
  assumes "comparison_cached ev data_root num_clients w"
  shows "comparison_cache ev data_root num_clients w
         = (w, stored_comparison ev data_root num_clients w)"
proof -
  obtain p1 p2 p3 where p: "comparison_paths ev data_root num_clients = (p1, p2, p3)"
    by (cases "comparison_paths ev data_root num_clients")
  have c: "path_exists w p1 \<and> path_exists w p2 \<and> path_exists w p3"
    using assms p by (simp add: comparison_cached_def)
  show ?thesis
    unfolding comparison_cache_def stored_comparison_def p prod.case
    by (subst if_P [OF c]) (simp split: sum.splits)
qed

lemma comparison_cache_miss:
  assumes "\<not> comparison_cached ev data_root num_clients w"
  shows "comparison_cache ev data_root num_clients w
         = (case build_comparison ev data_root num_clients w of
              (w1, Inl e) \<Rightarrow> (w1, Inl e)
            | (w1, Inr r) \<Rightarrow> (store_comparison ev data_root num_clients r w1, Inr r))"
proof -
  obtain p1 p2 p3 where p: "comparison_paths ev data_root num_clients = (p1, p2, p3)"
    by (cases "comparison_paths ev data_root num_clients")
  have c: "\<not> (path_exists w p1 \<and> path_exists w p2 \<and> path_exists w p3)"
    using assms p by (simp add: comparison_cached_def)
  show ?thesis
    unfolding comparison_cache_def build_comparison_def store_comparison_def p prod.case
    by (subst if_not_P [OF c]) (simp add: Let_def split: prod.splits sum.splits)
qed

lemma stored_after_store_comparison:
  "stored_comparison ev data_root num_clients
     (store_comparison ev data_root num_clients r w) = Inr r \<and>
   comparison_cached ev data_root num_clients
     (store_comparison ev data_root num_clients r w)"
proof -
  obtain p1 p2 p3 where p: "comparison_paths ev data_root num_clients = (p1, p2, p3)"
    by (cases "comparison_paths ev data_root num_clients")
  obtain a b c where r: "r = (a, b, c)" by (cases r)
  note d = comparison_paths_distinct [OF p]
  have f: "file_at (store_comparison ev data_root num_clients (a, b, c) w) p1
           = Some (PickledCmp a)"
    "file_at (store_comparison ev data_root num_clients (a, b, c) w) p2 = Some (PickledCmp b)"
    "file_at (store_comparison ev data_root num_clients (a, b, c) w) p3 = Some (PickledCmp c)"
    unfolding store_comparison_def p prod.case
    using d by (simp_all add: files_three_writes)
  show ?thesis
    unfolding r stored_comparison_def comparison_cached_def p prod.case
    by (simp add: pickle_load_cmp_def read_file_def path_exists_def f)
qed

lemma comparison_paths_name:
  "name_or_path ev' = name_or_path ev \<Longrightarrow>
     comparison_paths ev' data_root num_clients = comparison_paths ev data_root num_clients"
  by (simp add: comparison_paths_def)

lemma comparison_cache_Inr:
  assumes "comparison_cache ev data_root num_clients w = (w', Inr r)"
  shows "comparison_cached ev data_root num_clients w' \<and>
         stored_comparison ev data_root num_clients w' = Inr r"
proof (cases "comparison_cached ev data_root num_clients w")
  case True
  then show ?thesis using assms by (auto simp: comparison_cache_hit)
next
  case False
  then show ?thesis
    using assms stored_after_store_comparison [of ev data_root num_clients r]
    by (auto simp: comparison_cache_miss split: prod.splits sum.splits)
qed

lemma comparison_cache_again:
  assumes "comparison_cache ev data_root num_clients w = (w', Inr r)"
    and "name_or_path ev' = name_or_path ev"
  shows "comparison_cache ev' data_root num_clients w' = (w', Inr r)"
proof -
  have "comparison_cached ev' data_root num_clients w'"
    and "stored_comparison ev' data_root num_clients w' = Inr r"
    using comparison_cache_Inr [OF assms(1)] comparison_paths_name [OF assms(2)]
    by (simp_all add: comparison_cached_def stored_comparison_def)
  then show ?thesis by (simp add: comparison_cache_hit)
qed

subsection \<open>The letter-choice loader\<close>

lemma choice_cache_hit:
  assumes "choice_cached ev data_root num_clients w"
  shows "choice_cache ev data_root num_clients w
         = (w, stored_choice ev data_root num_clients w)"
proof -
  obtain p1 p2 p3 where p: "choice_paths ev data_root num_clients = (p1, p2, p3)"
    by (cases "choice_paths ev data_root num_clients")
  have c: "path_exists w p1 \<and> path_exists w p2 \<and> path_exists w p3"
    using assms p by (simp add: choice_cached_def)
  show ?thesis
    unfolding choice_cache_def stored_choice_def p prod.case
    by (subst if_P [OF c]) (simp split: sum.splits)
qed

lemma choice_cache_miss:
  assumes "\<not> choice_cached ev data_root num_clients w"
  shows "choice_cache ev data_root num_clients w
         = (case build_choice ev data_root num_clients w of
              (w1, Inl e) \<Rightarrow> (w1, Inl e)
            | (w1, Inr r) \<Rightarrow> (store_choice ev data_root num_clients r w1, Inr r))"
proof -
  obtain p1 p2 p3 where p: "choice_paths ev data_root num_clients = (p1, p2, p3)"
    by (cases "choice_paths ev data_root num_clients")
  have c: "\<not> (path_exists w p1 \<and> path_exists w p2 \<and> path_exists w p3)"
    using assms p by (simp add: choice_cached_def)
  show ?thesis
    unfolding choice_cache_def build_choice_def store_choice_def p prod.case
    by (subst if_not_P [OF c]) (simp add: Let_def split: prod.splits sum.splits)
qed

lemma stored_after_store_choice:
  "stored_choice ev data_root num_clients
     (store_choice ev data_root num_clients r w) = Inr r \<and>
   choice_cached ev data_root num_clients
     (store_choice ev data_root num_clients r w)"
proof -
  obtain p1 p2 p3 where p: "choice_paths ev data_root num_clients = (p1, p2, p3)"
    by (cases "choice_paths ev data_root num_clients")
  obtain a b c where r: "r = (a, b, c)" by (cases r)
  note d = choice_paths_distinct [OF p]
  have f: "file_at (store_choice ev data_root num_clients (a, b, c) w) p1
           = Some (PickledLLM a)"
    "file_at (store_choice ev data_root num_clients (a, b, c) w) p2 = Some (PickledLLM b)"
    "file_at (store_choice ev data_root num_clients (a, b, c) w) p3 = Some (PickledLLM c)"
    unfolding store_choice_def p prod.case
    using d by (simp_all add: files_three_writes)
  show ?thesis
    unfolding r stored_choice_def choice_cached_def p prod.case
    by (simp add: pickle_load_llm_def read_file_def path_exists_def f)
qed

lemma choice_paths_name:
  "name_or_path ev' = name_or_path ev \<Longrightarrow>
     choice_paths ev' data_root num_clients = choice_paths ev data_root num_clients"
  by (simp add: choice_paths_def)

lemma choice_cache_Inr:
  assumes "choice_cache ev data_root num_clients w = (w', Inr r)"
  shows "choice_cached ev data_root num_clients w' \<and>
         stored_choice ev data_root num_clients w' = Inr r"
proof (cases "choice_cached ev data_root num_clients w")
  case True
  then show ?thesis using assms by (auto simp: choice_cache_hit)
next
  case False
  then show ?thesis
    using assms stored_after_store_choice [of ev data_root num_clients r]
    by (auto simp: choice_cache_miss split: prod.splits sum.splits)
qed

lemma choice_cache_again:
  assumes "choice_cache ev data_root num_clients w = (w', Inr r)"
    and "name_or_path ev' = name_or_path ev"
  shows "choice_cache ev' data_root num_clients w' = (w', Inr r)"
proof -
  have "choice_cached ev' data_root num_clients w'"
    and "stored_choice ev' data_root num_clients w' = Inr r"
    using choice_cache_Inr [OF assms(1)] choice_paths_name [OF assms(2)]
    by (simp_all add: choice_cached_def stored_choice_def)
  then show ?thesis by (simp add: choice_cache_hit)
qed

subsection \<open>The first and the second run on the small corpus\<close>

lemma comparison_paths_ex:
  "comparison_paths env_ex ''data'' 2
   = (''data/tok_train_2.pickle'', ''data/tok_val.pickle'', ''data/tok_test.pickle'')"
  by (simp add: comparison_paths_def env_ex_def basename_def path_join_def str_int_def)

lemma choice_paths_ex:
  "choice_paths env_ex ''data'' 2
   = (''data/tok_train_choice_2.pickle'', ''data/tok_val_choice.pickle'',
      ''data/tok_test_choice.pickle'')"
  by (simp add: choice_paths_def env_ex_def basename_def path_join_def str_int_def)

lemma name_env_offline: "name_or_path env_offline = name_or_path env_ex"
  by (simp add: env_offline_def env_ex_def)

lemma world0_not_comparison_cached: "\<not> comparison_cached env_ex ''data'' 2 world0"
  by (simp add: comparison_cached_def comparison_paths_ex path_exists_def file_at_def
      isdir_def world0_def)

lemma world0_not_choice_cached: "\<not> choice_cached env_ex ''data'' 2 world0"
  by (simp add: choice_cached_def choice_paths_ex path_exists_def file_at_def isdir_def
      world0_def)

lemma build_comparison_ex:
  "snd (build_comparison env_ex ''data'' 2 world0)
   = Inr (cmp_train_ex, cmp_val_ex, cmp_test_ex)"
proof -
  have c: "LLMComparisonDataset env_ex
             [\<lparr>instruction = ''q1'', category = ''Client_0'', output_A = ''a'',
               output_B = ''x'', choice = 0, domain = Some ''askphysics''\<rparr>,
              \<lparr>instruction = ''q1'', category = ''Client_0'', output_A = ''c'',
               output_B = ''z'', choice = 1, domain = Some ''askphysics''\<rparr>]
           = Inr cmp_train_ex"
    "LLMComparisonDataset env_ex val_ex = Inr cmp_val_ex"
    "LLMComparisonDataset env_ex test_ex = Inr cmp_test_ex"
    by (simp_all add: env_ex_def cmp_train_ex_def cmp_val_ex_def cmp_test_ex_def
        val_ex_def test_ex_def)
  show ?thesis
    unfolding build_comparison_def
    by (subst shp_dataset_ex) (simp add: c)
qed

lemma build_choice_ex:
  "snd (build_choice env_ex ''data'' 2 world0)
   = Inr (choice_train_ex, choice_val_ex, choice_test_ex)"
proof -
  have s: "shape_by_choice
             [\<lparr>instruction = ''q1'', category = ''Client_0'', output_A = ''a'',
               output_B = ''x'', choice = 0, domain = Some ''askphysics''\<rparr>,
              \<lparr>instruction = ''q1'', category = ''Client_0'', output_A = ''c'',
               output_B = ''z'', choice = 1, domain = Some ''askphysics''\<rparr>]
             val_ex test_ex
           = Inr (map lettered (mirror_train
                    [\<lparr>instruction = ''q1'', category = ''Client_0'', output_A = ''a'',
                      output_B = ''x'', choice = 0, domain = Some ''askphysics''\<rparr>,
                     \<lparr>instruction = ''q1'', category = ''Client_0'', output_A = ''c'',
                      output_B = ''z'', choice = 1, domain = Some ''askphysics''\<rparr>]),
                  map lettered val_ex, map lettered test_ex)"
    by (simp add: shape_by_choice_eq first_rejected_def in_chr_range_def mirror_train_def
        exchange_def val_ex_def test_ex_def)
  have c: "LLMDataset env_ex (map lettered (mirror_train
                    [\<lparr>instruction = ''q1'', category = ''Client_0'', output_A = ''a'',
                      output_B = ''x'', choice = 0, domain = Some ''askphysics''\<rparr>,
                     \<lparr>instruction = ''q1'', category = ''Client_0'', output_A = ''c'',
                      output_B = ''z'', choice = 1, domain = Some ''askphysics''\<rparr>]))
           = Inr choice_train_ex"
    "LLMDataset env_ex (map lettered val_ex) = Inr choice_val_ex"
    "LLMDataset env_ex (map lettered test_ex) = Inr choice_test_ex"
    by (simp_all add: env_ex_def choice_train_ex_def choice_val_ex_def choice_test_ex_def
        val_ex_def test_ex_def lettered_def mirror_train_def exchange_def)
  show ?thesis
    unfolding build_choice_def
    by (subst shp_dataset_ex) (simp add: s c)
qed

lemma comparison_cache_ex:
  "comparison_cache env_ex ''data'' 2 world0
   = (world_cmp, Inr (cmp_train_ex, cmp_val_ex, cmp_test_ex))"
  unfolding world_cmp_def
  using build_comparison_ex
  by (simp add: comparison_cache_miss [OF world0_not_comparison_cached] prod_eq_iff
      split: prod.splits sum.splits)

lemma choice_cache_ex:
  "choice_cache env_ex ''data'' 2 world0
   = (world_choice, Inr (choice_train_ex, choice_val_ex, choice_test_ex))"
  unfolding world_choice_def
  using build_choice_ex
  by (simp add: choice_cache_miss [OF world0_not_choice_cached] prod_eq_iff
      split: prod.splits sum.splits)


subsection \<open>The cache of both loaders\<close>

lemma comparison_cache_second:
  assumes "comparison_cache ev data_root num_clients w = (w', Inr r)
           \<and> name_or_path ev' = name_or_path ev"
  shows "comparison_cached ev' data_root num_clients w' \<and>
         stored_comparison ev' data_root num_clients w' = Inr r \<and>
         comparison_cache ev' data_root num_clients w' = (w', Inr r)"
proof -
  have a: "comparison_cache ev data_root num_clients w = (w', Inr r)"
    and b: "name_or_path ev' = name_or_path ev"
    using assms by blast+
  have "comparison_cached ev' data_root num_clients w'"
    and "stored_comparison ev' data_root num_clients w' = Inr r"
    using comparison_cache_Inr [OF a] comparison_paths_name [OF b]
    by (simp_all add: comparison_cached_def stored_comparison_def)
  then show ?thesis
    using comparison_cache_again [OF a b] by blast
qed

lemma choice_cache_second:
  assumes "choice_cache ev data_root num_clients w = (w', Inr r)
           \<and> name_or_path ev' = name_or_path ev"
  shows "choice_cached ev' data_root num_clients w' \<and>
         stored_choice ev' data_root num_clients w' = Inr r \<and>
         choice_cache ev' data_root num_clients w' = (w', Inr r)"
proof -
  have a: "choice_cache ev data_root num_clients w = (w', Inr r)"
    and b: "name_or_path ev' = name_or_path ev"
    using assms by blast+
  have "choice_cached ev' data_root num_clients w'"
    and "stored_choice ev' data_root num_clients w' = Inr r"
    using choice_cache_Inr [OF a] choice_paths_name [OF b]
    by (simp_all add: choice_cached_def stored_choice_def)
  then show ?thesis
    using choice_cache_again [OF a b] by blast
qed

lemma load_comparison_plain:
  "\<not> 0 < m \<Longrightarrow>
     load_comparison_dataset ev data_root n m w = comparison_cache ev data_root n w"
  by (simp add: load_comparison_dataset_def split: prod.splits sum.splits)

lemma load_choice_plain:
  "\<not> 0 < m \<Longrightarrow>
     load_shp_cmp_dataset_by_choice ev data_root n m w = choice_cache ev data_root n w"
  by (simp add: load_shp_cmp_dataset_by_choice_def split: prod.splits sum.splits)

lemma load_comparison_again:
  assumes "load_comparison_dataset ev data_root n m w = (w', Inr r2)
           \<and> name_or_path ev' = name_or_path ev"
  shows "load_comparison_dataset ev' data_root n m w' = (w', Inr r2)"
proof -
  obtain a b c where c: "comparison_cache ev data_root n w = (w', Inr (a, b, c))"
    and r: "r2 = (if 0 < m then (a, shrink_cmp m b, shrink_cmp m c) else (a, b, c))"
    using assms
    by (auto simp: load_comparison_dataset_def split: prod.splits sum.splits if_splits)
  have "comparison_cache ev' data_root n w' = (w', Inr (a, b, c))"
    using comparison_cache_again [OF c] assms by blast
  then show ?thesis
    by (simp add: load_comparison_dataset_def r)
qed

lemma load_choice_again:
  assumes "load_shp_cmp_dataset_by_choice ev data_root n m w = (w', Inr r2)
           \<and> name_or_path ev' = name_or_path ev"
  shows "load_shp_cmp_dataset_by_choice ev' data_root n m w' = (w', Inr r2)"
proof -
  obtain a b c where c: "choice_cache ev data_root n w = (w', Inr (a, b, c))"
    and r: "r2 = (if 0 < m then (a, shrink_llm m b, shrink_llm m c) else (a, b, c))"
    using assms
    by (auto simp: load_shp_cmp_dataset_by_choice_def split: prod.splits sum.splits if_splits)
  have "choice_cache ev' data_root n w' = (w', Inr (a, b, c))"
    using choice_cache_again [OF c] assms by blast
  then show ?thesis
    by (simp add: load_shp_cmp_dataset_by_choice_def r)
qed

text \<open>
  C6. For the comparison loader and for the letter-choice loader: when the three
  pickle files exist, the cache part returns what they hold and leaves the data root
  and the console as they are, so nothing of the build pipeline ran; otherwise the
  build pipeline runs and, when it gives three datasets, they are serialized to the
  three files and returned. After a call that returned datasets, the files exist and
  hold them, and a second call returns the same datasets in the same state, whatever
  the collaborators of the build pipeline would do (only the tokenizer name, which
  names the files, must be the same). Each loader is its cache part when
  \<open>max_num_test\<close> is not positive, and with any \<open>max_num_test\<close> a second call
  of the loader returns what the first call returned, in the same state.
\<close>

theorem tokenized_cache_get_or_build:
  "(comparison_cached ev data_root n w \<longrightarrow>
      comparison_cache ev data_root n w = (w, stored_comparison ev data_root n w)) \<and>
   (\<not> comparison_cached ev data_root n w \<longrightarrow>
      comparison_cache ev data_root n w
        = (case build_comparison ev data_root n w of
             (w1, Inl e) \<Rightarrow> (w1, Inl e)
           | (w1, Inr r) \<Rightarrow> (store_comparison ev data_root n r w1, Inr r))) \<and>
   stored_comparison ev data_root n (store_comparison ev data_root n r w1) = Inr r \<and>
   (comparison_cache ev data_root n w = (w', Inr r) \<and> name_or_path ev' = name_or_path ev
      \<longrightarrow> comparison_cached ev' data_root n w' \<and>
          stored_comparison ev' data_root n w' = Inr r \<and>
          comparison_cache ev' data_root n w' = (w', Inr r)) \<and>
   (choice_cached ev data_root n w \<longrightarrow>
      choice_cache ev data_root n w = (w, stored_choice ev data_root n w)) \<and>
   (\<not> choice_cached ev data_root n w \<longrightarrow>
      choice_cache ev data_root n w
        = (case build_choice ev data_root n w of
             (w1, Inl e) \<Rightarrow> (w1, Inl e)
           | (w1, Inr q) \<Rightarrow> (store_choice ev data_root n q w1, Inr q))) \<and>
   stored_choice ev data_root n (store_choice ev data_root n q w1) = Inr q \<and>
   (choice_cache ev data_root n w = (w'', Inr q) \<and> name_or_path ev' = name_or_path ev
      \<longrightarrow> choice_cached ev' data_root n w'' \<and>
          stored_choice ev' data_root n w'' = Inr q \<and>
          choice_cache ev' data_root n w'' = (w'', Inr q)) \<and>
   (\<not> 0 < m \<longrightarrow>
      load_comparison_dataset ev data_root n m w = comparison_cache ev data_root n w \<and>
      load_shp_cmp_dataset_by_choice ev data_root n m w = choice_cache ev data_root n w) \<and>
   (load_comparison_dataset ev data_root n k w = (w', Inr r2)
      \<and> name_or_path ev' = name_or_path ev
      \<longrightarrow> load_comparison_dataset ev' data_root n k w' = (w', Inr r2)) \<and>
   (load_shp_cmp_dataset_by_choice ev data_root n k w = (w'', Inr q2)
      \<and> name_or_path ev' = name_or_path ev
      \<longrightarrow> load_shp_cmp_dataset_by_choice ev' data_root n k w'' = (w'', Inr q2))"
proof -
  have 1: "comparison_cached ev data_root n w \<longrightarrow>
      comparison_cache ev data_root n w = (w, stored_comparison ev data_root n w)"
    by (rule impI) (rule comparison_cache_hit)
  have 2: "\<not> comparison_cached ev data_root n w \<longrightarrow>
      comparison_cache ev data_root n w
        = (case build_comparison ev data_root n w of
             (w1, Inl e) \<Rightarrow> (w1, Inl e)
           | (w1, Inr r) \<Rightarrow> (store_comparison ev data_root n r w1, Inr r))"
    by (rule impI) (rule comparison_cache_miss)
  have 3: "stored_comparison ev data_root n (store_comparison ev data_root n r w1) = Inr r"
    by (rule stored_after_store_comparison [THEN conjunct1])
  have 4: "comparison_cache ev data_root n w = (w', Inr r)
      \<and> name_or_path ev' = name_or_path ev
      \<longrightarrow> comparison_cached ev' data_root n w' \<and>
          stored_comparison ev' data_root n w' = Inr r \<and>
          comparison_cache ev' data_root n w' = (w', Inr r)"
    by (rule impI) (rule comparison_cache_second)
  have 5: "choice_cached ev data_root n w \<longrightarrow>
      choice_cache ev data_root n w = (w, stored_choice ev data_root n w)"
    by (rule impI) (rule choice_cache_hit)
  have 6: "\<not> choice_cached ev data_root n w \<longrightarrow>
      choice_cache ev data_root n w
        = (case build_choice ev data_root n w of
             (w1, Inl e) \<Rightarrow> (w1, Inl e)
           | (w1, Inr q) \<Rightarrow> (store_choice ev data_root n q w1, Inr q))"
    by (rule impI) (rule choice_cache_miss)
  have 7: "stored_choice ev data_root n (store_choice ev data_root n q w1) = Inr q"
    by (rule stored_after_store_choice [THEN conjunct1])
  have 8: "choice_cache ev data_root n w = (w'', Inr q)
      \<and> name_or_path ev' = name_or_path ev
      \<longrightarrow> choice_cached ev' data_root n w'' \<and>
          stored_choice ev' data_root n w'' = Inr q \<and>
          choice_cache ev' data_root n w'' = (w'', Inr q)"
    by (rule impI) (rule choice_cache_second)
  have 9: "\<not> 0 < m \<longrightarrow>
      load_comparison_dataset ev data_root n m w = comparison_cache ev data_root n w \<and>
      load_shp_cmp_dataset_by_choice ev data_root n m w = choice_cache ev data_root n w"
    by (simp add: load_comparison_plain load_choice_plain)
  have 10: "load_comparison_dataset ev data_root n k w = (w', Inr r2)
      \<and> name_or_path ev' = name_or_path ev
      \<longrightarrow> load_comparison_dataset ev' data_root n k w' = (w', Inr r2)"
    by (rule impI) (rule load_comparison_again)
  have 11: "load_shp_cmp_dataset_by_choice ev data_root n k w = (w'', Inr q2)
      \<and> name_or_path ev' = name_or_path ev
      \<longrightarrow> load_shp_cmp_dataset_by_choice ev' data_root n k w'' = (w'', Inr q2)"
    by (rule impI) (rule load_choice_again)
  show ?thesis
    by (rule conjI 1 2 3 4 5 6 7 8 9 10 11)+
qed

theorem tokenized_cache_get_or_build_witness:
  "\<not> comparison_cached env_ex ''data'' 2 world0 \<and>
   comparison_cache env_ex ''data'' 2 world0
     = (world_cmp, Inr (cmp_train_ex, cmp_val_ex, cmp_test_ex)) \<and>
   name_or_path env_offline = name_or_path env_ex \<and>
   comparison_cached env_offline ''data'' 2 world_cmp \<and>
   comparison_cache env_offline ''data'' 2 world_cmp
     = (world_cmp, Inr (cmp_train_ex, cmp_val_ex, cmp_test_ex)) \<and>
   \<not> choice_cached env_ex ''data'' 2 world0 \<and>
   choice_cache env_ex ''data'' 2 world0
     = (world_choice, Inr (choice_train_ex, choice_val_ex, choice_test_ex)) \<and>
   choice_cached env_offline ''data'' 2 world_choice \<and>
   choice_cache env_offline ''data'' 2 world_choice
     = (world_choice, Inr (choice_train_ex, choice_val_ex, choice_test_ex))"
proof -
  note t = tokenized_cache_get_or_build
    [of env_ex "''data''" 2 world0
        "(cmp_train_ex, cmp_val_ex, cmp_test_ex)" world0 world_cmp env_offline
        "(choice_train_ex, choice_val_ex, choice_test_ex)" world_choice]
  note t4 = t [THEN conjunct2, THEN conjunct2, THEN conjunct2, THEN conjunct1]
  note t8 = t [THEN conjunct2, THEN conjunct2, THEN conjunct2, THEN conjunct2,
               THEN conjunct2, THEN conjunct2, THEN conjunct2, THEN conjunct1]
  have c: "comparison_cached env_offline ''data'' 2 world_cmp \<and>
        stored_comparison env_offline ''data'' 2 world_cmp
          = Inr (cmp_train_ex, cmp_val_ex, cmp_test_ex) \<and>
        comparison_cache env_offline ''data'' 2 world_cmp
          = (world_cmp, Inr (cmp_train_ex, cmp_val_ex, cmp_test_ex))"
    by (rule t4 [THEN mp]) (rule conjI [OF comparison_cache_ex name_env_offline])
  have d: "choice_cached env_offline ''data'' 2 world_choice \<and>
        stored_choice env_offline ''data'' 2 world_choice
          = Inr (choice_train_ex, choice_val_ex, choice_test_ex) \<and>
        choice_cache env_offline ''data'' 2 world_choice
          = (world_choice, Inr (choice_train_ex, choice_val_ex, choice_test_ex))"
    by (rule t8 [THEN mp]) (rule conjI [OF choice_cache_ex name_env_offline])
  show ?thesis
    by (intro conjI world0_not_comparison_cached world0_not_choice_cached
        comparison_cache_ex choice_cache_ex name_env_offline
        c [THEN conjunct1] c [THEN conjunct2, THEN conjunct2]
        d [THEN conjunct1] d [THEN conjunct2, THEN conjunct2])
qed

subsection \<open>Shrinking after the load\<close>

lemma world_cmp_stored:
  "comparison_cached env_offline ''data'' 2 world_cmp \<and>
   stored_comparison env_offline ''data'' 2 world_cmp
     = Inr (cmp_train_ex, cmp_val_ex, cmp_test_ex)"
  using comparison_cache_second [OF conjI [OF comparison_cache_ex name_env_offline]]
  by blast

lemma world_choice_stored:
  "choice_cached env_offline ''data'' 2 world_choice \<and>
   stored_choice env_offline ''data'' 2 world_choice
     = Inr (choice_train_ex, choice_val_ex, choice_test_ex)"
  using choice_cache_second [OF conjI [OF choice_cache_ex name_env_offline]]
  by blast

lemma load_comparison_hit:
  assumes "comparison_cached ev data_root n w"
    and "stored_comparison ev data_root n w = Inr (a, b, c)"
    and "0 < m"
  shows "load_comparison_dataset ev data_root n m w
         = (w, Inr (a, shrink_cmp m b, shrink_cmp m c))"
  using assms(2,3)
  by (simp add: load_comparison_dataset_def comparison_cache_hit [OF assms(1)])

lemma load_choice_hit:
  assumes "choice_cached ev data_root n w"
    and "stored_choice ev data_root n w = Inr (a, b, c)"
    and "0 < m"
  shows "load_shp_cmp_dataset_by_choice ev data_root n m w
         = (w, Inr (a, shrink_llm m b, shrink_llm m c))"
  using assms(2,3)
  by (simp add: load_shp_cmp_dataset_by_choice_def choice_cache_hit [OF assms(1)])

lemma load_comparison_Inr:
  assumes "load_comparison_dataset ev data_root n m w = (w', Inr (a', b', c'))"
    and "0 < m"
  shows "\<exists>b c. stored_comparison ev data_root n w' = Inr (a', b, c) \<and>
               b' = shrink_cmp m b \<and> c' = shrink_cmp m c"
proof -
  obtain a b c where c: "comparison_cache ev data_root n w = (w', Inr (a, b, c))"
    and r: "a' = a" "b' = shrink_cmp m b" "c' = shrink_cmp m c"
    using assms
    by (auto simp: load_comparison_dataset_def split: prod.splits sum.splits)
  show ?thesis
    using comparison_cache_Inr [OF c] r by simp
qed

lemma load_choice_Inr:
  assumes "load_shp_cmp_dataset_by_choice ev data_root n m w = (w', Inr (a', b', c'))"
    and "0 < m"
  shows "\<exists>b c. stored_choice ev data_root n w' = Inr (a', b, c) \<and>
               b' = shrink_llm m b \<and> c' = shrink_llm m c"
proof -
  obtain a b c where c: "choice_cache ev data_root n w = (w', Inr (a, b, c))"
    and r: "a' = a" "b' = shrink_llm m b" "c' = shrink_llm m c"
    using assms
    by (auto simp: load_shp_cmp_dataset_by_choice_def split: prod.splits sum.splits)
  show ?thesis
    using choice_cache_Inr [OF c] r by simp
qed

text \<open>
  C10. With the three pickle files present and loading as \<open>(a, b, c)\<close>, and a
  positive \<open>max_num_test\<close>, both loaders return the train dataset \<open>a\<close> as stored
  and the val and test datasets with their \<open>input_ids\<close> cut to the first
  \<open>max_num_test\<close> sequences (for the comparison loader, those of the win and of the
  lose dataset); the data root is returned as it was, so the files still hold the
  full datasets. After any successful call, also one that built the datasets, the
  files hold the returned train dataset and the full val and test datasets.
\<close>

theorem shrink_after_load_keeps_cache:
  "(comparison_cached ev data_root n w \<and>
    stored_comparison ev data_root n w = Inr (a, b, c) \<and> 0 < m \<longrightarrow>
      load_comparison_dataset ev data_root n m w
        = (w, Inr (a, shrink_cmp m b, shrink_cmp m c)) \<and>
      input_ids (win_dataset (shrink_cmp m b)) = take (nat m) (input_ids (win_dataset b)) \<and>
      input_ids (lose_dataset (shrink_cmp m b)) = take (nat m) (input_ids (lose_dataset b)) \<and>
      input_ids (win_dataset (shrink_cmp m c)) = take (nat m) (input_ids (win_dataset c)) \<and>
      input_ids (lose_dataset (shrink_cmp m c)) = take (nat m) (input_ids (lose_dataset c))) \<and>
   (load_comparison_dataset ev data_root n m w = (w', Inr (a', b', c')) \<and> 0 < m \<longrightarrow>
      (\<exists>b c. stored_comparison ev data_root n w' = Inr (a', b, c) \<and>
             b' = shrink_cmp m b \<and> c' = shrink_cmp m c)) \<and>
   (choice_cached ev data_root n w \<and>
    stored_choice ev data_root n w = Inr (ta, tb, tc) \<and> 0 < m \<longrightarrow>
      load_shp_cmp_dataset_by_choice ev data_root n m w
        = (w, Inr (ta, shrink_llm m tb, shrink_llm m tc)) \<and>
      input_ids (shrink_llm m tb) = take (nat m) (input_ids tb) \<and>
      input_ids (shrink_llm m tc) = take (nat m) (input_ids tc)) \<and>
   (load_shp_cmp_dataset_by_choice ev data_root n m w = (w'', Inr (ta', tb', tc')) \<and> 0 < m
      \<longrightarrow>
      (\<exists>b c. stored_choice ev data_root n w'' = Inr (ta', b, c) \<and>
             tb' = shrink_llm m b \<and> tc' = shrink_llm m c))"
proof -
  have 1: "comparison_cached ev data_root n w \<and>
    stored_comparison ev data_root n w = Inr (a, b, c) \<and> 0 < m \<longrightarrow>
      load_comparison_dataset ev data_root n m w
        = (w, Inr (a, shrink_cmp m b, shrink_cmp m c)) \<and>
      input_ids (win_dataset (shrink_cmp m b)) = take (nat m) (input_ids (win_dataset b)) \<and>
      input_ids (lose_dataset (shrink_cmp m b)) = take (nat m) (input_ids (lose_dataset b)) \<and>
      input_ids (win_dataset (shrink_cmp m c)) = take (nat m) (input_ids (win_dataset c)) \<and>
      input_ids (lose_dataset (shrink_cmp m c)) = take (nat m) (input_ids (lose_dataset c))"
    using load_comparison_hit [of ev data_root n w a b c m]
    by (simp add: shrink_cmp_def shrink_llm_def)
  have 2: "load_comparison_dataset ev data_root n m w = (w', Inr (a', b', c')) \<and> 0 < m \<longrightarrow>
      (\<exists>b c. stored_comparison ev data_root n w' = Inr (a', b, c) \<and>
             b' = shrink_cmp m b \<and> c' = shrink_cmp m c)"
    using load_comparison_Inr [of ev data_root n m w w' a' b' c'] by blast
  have 3: "choice_cached ev data_root n w \<and>
    stored_choice ev data_root n w = Inr (ta, tb, tc) \<and> 0 < m \<longrightarrow>
      load_shp_cmp_dataset_by_choice ev data_root n m w
        = (w, Inr (ta, shrink_llm m tb, shrink_llm m tc)) \<and>
      input_ids (shrink_llm m tb) = take (nat m) (input_ids tb) \<and>
      input_ids (shrink_llm m tc) = take (nat m) (input_ids tc)"
    using load_choice_hit [of ev data_root n w ta tb tc m]
    by (simp add: shrink_llm_def)
  have 4: "load_shp_cmp_dataset_by_choice ev data_root n m w = (w'', Inr (ta', tb', tc'))
      \<and> 0 < m \<longrightarrow>
      (\<exists>b c. stored_choice ev data_root n w'' = Inr (ta', b, c) \<and>
             tb' = shrink_llm m b \<and> tc' = shrink_llm m c)"
    using load_choice_Inr [of ev data_root n m w w'' ta' tb' tc'] by blast
  show ?thesis
    by (rule conjI 1 2 3 4)+
qed

theorem shrink_after_load_keeps_cache_witness:
  "comparison_cached env_offline ''data'' 2 world_cmp \<and>
   stored_comparison env_offline ''data'' 2 world_cmp
     = Inr (cmp_train_ex, cmp_val_ex, cmp_test_ex) \<and>
   load_comparison_dataset env_offline ''data'' 2 1 world_cmp
     = (world_cmp,
        Inr (cmp_train_ex,
             \<lparr>win_dataset = \<lparr>input_ids = [[117]]\<rparr>, lose_dataset = \<lparr>input_ids = [[100]]\<rparr>\<rparr>,
             \<lparr>win_dataset = \<lparr>input_ids = [[102]]\<rparr>, lose_dataset = \<lparr>input_ids = [[114]]\<rparr>\<rparr>)) \<and>
   choice_cached env_offline ''data'' 2 world_choice \<and>
   stored_choice env_offline ''data'' 2 world_choice
     = Inr (choice_train_ex, choice_val_ex, choice_test_ex) \<and>
   load_shp_cmp_dataset_by_choice env_offline ''data'' 2 1 world_choice
     = (world_choice,
        Inr (choice_train_ex, \<lparr>input_ids = [[32, 66]]\<rparr>, \<lparr>input_ids = [[32, 65]]\<rparr>))"
proof -
  note t = shrink_after_load_keeps_cache
    [of env_offline "''data''" 2 world_cmp cmp_train_ex cmp_val_ex cmp_test_ex 1]
  note u = shrink_after_load_keeps_cache
    [of env_offline "''data''" 2 world_choice _ _ _ 1 _ _ _ _
        choice_train_ex choice_val_ex choice_test_ex]
  have m: "(0::int) < 1" by simp
  have c: "load_comparison_dataset env_offline ''data'' 2 1 world_cmp
     = (world_cmp, Inr (cmp_train_ex, shrink_cmp 1 cmp_val_ex, shrink_cmp 1 cmp_test_ex))"
    using t [THEN conjunct1, THEN mp, OF conjI [OF world_cmp_stored [THEN conjunct1]
          conjI [OF world_cmp_stored [THEN conjunct2] m]]]
    by (rule conjunct1)
  have d: "load_shp_cmp_dataset_by_choice env_offline ''data'' 2 1 world_choice
     = (world_choice,
        Inr (choice_train_ex, shrink_llm 1 choice_val_ex, shrink_llm 1 choice_test_ex))"
    using u [THEN conjunct2, THEN conjunct2, THEN conjunct1, THEN mp,
          OF conjI [OF world_choice_stored [THEN conjunct1]
          conjI [OF world_choice_stored [THEN conjunct2] m]]]
    by (rule conjunct1)
  have s: "shrink_cmp 1 cmp_val_ex
           = \<lparr>win_dataset = \<lparr>input_ids = [[117]]\<rparr>, lose_dataset = \<lparr>input_ids = [[100]]\<rparr>\<rparr>"
    "shrink_cmp 1 cmp_test_ex
           = \<lparr>win_dataset = \<lparr>input_ids = [[102]]\<rparr>, lose_dataset = \<lparr>input_ids = [[114]]\<rparr>\<rparr>"
    "shrink_llm 1 choice_val_ex = \<lparr>input_ids = [[32, 66]]\<rparr>"
    "shrink_llm 1 choice_test_ex = \<lparr>input_ids = [[32, 65]]\<rparr>"
    by (simp_all add: shrink_cmp_def shrink_llm_def cmp_val_ex_def cmp_test_ex_def
        choice_val_ex_def choice_test_ex_def)
  show ?thesis
    using c d world_cmp_stored world_choice_stored
    by (simp only: s simp_thms)
qed

section \<open>The checkpoint search of the chat wrapper\<close>

lemma first_existing_find:
  "first_existing w d f ps = find (\<lambda>pre. path_exists w (path_join d (pre @ f))) ps"
  by (induction ps) auto

lemma init_prefix_eq:
  "save_freq cfg \<noteq> 0 \<Longrightarrow> init_prefix cfg = Inr (checkpoint_prefixes cfg)"
  by (simp add: init_prefix_def checkpoint_prefixes_def Let_def)

lemma length_checkpoint_prefixes: "1 < length (checkpoint_prefixes cfg)"
  by (simp add: checkpoint_prefixes_def)




lemma load_error_checkpoint:
  "file_at w (candidate_path cfg pre) = Some CheckpointFile \<Longrightarrow> load_error w cfg pre = None"
  by (simp add: load_error_def torch_load_def read_file_def)

lemma next_model_eq:
  "next_model w self
   = (case find (\<lambda>pre. path_exists w (path_join (dirname self) (pre @ filename self)))
             (prefix self) of
        Some pre \<Rightarrow>
          if offsite_tuning_use (config self)
          then Inr (self\<lparr>curpfx := Some pre,
                         model := OffsiteWrapped
                           (Some (path_join (dirname self) (pre @ filename self))),
                         prefix := drop (list_index (prefix self) pre + 1) (prefix self)\<rparr>)
          else (case torch_load w (path_join (dirname self) (pre @ filename self)) of
                  Inl e \<Rightarrow> Inl e
                | Inr ckpt \<Rightarrow>
                    Inr (self\<lparr>curpfx := Some pre,
                               model := LoadedFrom
                                 (path_join (dirname self) (pre @ filename self)),
                               prefix := drop (list_index (prefix self) pre + 1)
                                           (prefix self)\<rparr>))
      | None \<Rightarrow>
          if length (prefix self) > 1
          then Inr (self\<lparr>curpfx := None,
                         model := (if offsite_tuning_use (config self)
                                   then OffsiteWrapped None else Pretrained),
                         prefix := []\<rparr>)
          else Inl (ValueError ''No more model is able to us''))"
  by (simp add: next_model_def first_existing_find Let_def
      split: option.splits sum.splits)


lemma FSChatBot_eq:
  assumes "save_freq cfg \<noteq> 0"
  shows "FSChatBot w cfg False
         = (case find (candidate_exists w cfg) (checkpoint_prefixes cfg) of
              Some pre \<Rightarrow>
                (case load_error w cfg pre of
                   Some e \<Rightarrow> Inl e
                 | None \<Rightarrow>
                     Inr \<lparr>config = cfg,
                          prefix = drop (list_index (checkpoint_prefixes cfg) pre + 1)
                                     (checkpoint_prefixes cfg),
                          dirname = fst (path_split (save_to cfg)),
                          filename = snd (path_split (save_to cfg)),
                          curpfx = Some pre,
                          model = model_from cfg (Some (candidate_path cfg pre))\<rparr>)
            | None \<Rightarrow>
                Inr \<lparr>config = cfg, prefix = [],
                     dirname = fst (path_split (save_to cfg)),
                     filename = snd (path_split (save_to cfg)),
                     curpfx = None, model = model_from cfg None\<rparr>)"
proof -
  obtain d f where s: "path_split (save_to cfg) = (d, f)"
    by (cases "path_split (save_to cfg)")
  have e: "candidate_exists w cfg = (\<lambda>pre. path_exists w (path_join d (pre @ f)))"
    by (rule ext) (simp add: candidate_exists_def candidate_path_def s)
  show ?thesis
    using length_checkpoint_prefixes [of cfg]
    by (simp add: FSChatBot_def init_prefix_eq [OF assms] s next_model_eq
        e [symmetric] model_from_def candidate_path_def load_error_def
        split: option.splits sum.splits)
qed



subsection \<open>The example runs\<close>

lemma checkpoint_prefixes_ex:
  "checkpoint_prefixes cfg_ex = [''final_'', ''2_'', ''1_'', ''0_'', []]"
  by (simp add: checkpoint_prefixes_def cfg_ex_def upto.simps str_int_def)


lemma path_split_ex: "path_split (save_to cfg_ex) = (''ckpt'', ''model.ckpt'')"
  by (simp add: path_split_def cfg_ex_def basename_def Let_def)


lemmas candidate_path_ex = candidate_path_def path_split_ex path_join_def


lemma find_candidate_ckpt:
  "find (candidate_exists world_ckpt cfg_ex) (checkpoint_prefixes cfg_ex) = Some ''1_''"
  by (simp add: checkpoint_prefixes_ex candidate_exists_def candidate_path_ex
      path_exists_def file_at_def isdir_def world_ckpt_def)





lemma candidate_ckpt_is_checkpoint:
  "file_at world_ckpt (candidate_path cfg_ex ''1_'') = Some CheckpointFile"
  by (simp add: candidate_path_ex file_at_def world_ckpt_def)


lemma load_error_ckpt_ex: "load_error world_ckpt cfg_ex ''1_'' = None"
  by (rule load_error_checkpoint [OF candidate_ckpt_is_checkpoint])



lemma save_freq_ex: "save_freq cfg_ex \<noteq> 0"
  by (simp add: cfg_ex_def)


lemma chatbot_values_ex:
  "drop (list_index (checkpoint_prefixes cfg_ex) ''1_'' + 1) (checkpoint_prefixes cfg_ex)
   = [''0_'', []]"
  "drop (list_index (checkpoint_prefixes cfg_ex) ''0_'' + 1) (checkpoint_prefixes cfg_ex)
   = [[]]"
  "model_from cfg_ex (Some (candidate_path cfg_ex ''1_'')) = LoadedFrom ''ckpt/1_model.ckpt''"
  "model_from cfg_ex (Some (candidate_path cfg_ex ''0_'')) = LoadedFrom ''ckpt/0_model.ckpt''"
  "model_from cfg_ex None = Pretrained"
  "fst (path_split (save_to cfg_ex)) = ''ckpt''"
  "snd (path_split (save_to cfg_ex)) = ''model.ckpt''"
  by (simp_all add: checkpoint_prefixes_ex list_index_def model_from_def
      candidate_path_ex)
    (simp_all add: cfg_ex_def)




section \<open>The summarization evaluation\<close>

lemma scoring_loop_eq:
  "scoring_loop gen scorer items written scored
   = (written @ blocks (scored_prefix gen scorer items),
      scored @ scored_prefix gen scorer items,
      first_error gen scorer items)"
proof (induction items arbitrary: written scored)
  case Nil
  then show ?case by (simp add: blocks_def scored_prefix_def first_error_def)
next
  case (Cons item items)
  show ?case
  proof (cases "item_result gen scorer item")
    case (Inl e)
    then have "scoring_loop gen scorer (item # items) written scored
               = (written, scored, Some e)"
      by (auto simp: item_result_def split: sum.splits)
    then show ?thesis
      using Inl by (simp add: blocks_def scored_prefix_def first_error_def)
  next
    case (Inr s)
    then have "scoring_loop gen scorer (item # items) written scored
               = scoring_loop gen scorer items (written @ [ItemBlock s, Separator])
                   (scored @ [s])"
      by (auto simp: item_result_def Let_def split: sum.splits)
    then show ?thesis
      using Inr Cons.IH [of "written @ [ItemBlock s, Separator]" "scored @ [s]"]
      by (simp add: blocks_def scored_prefix_def first_error_def)
  qed
qed

lemma evaluate_eq:
  "evaluate fschatbot generate scorer aggregate items
   = (case first_error (generate fschatbot) scorer items of
        Some err \<Rightarrow>
          \<lparr>display_name = str_opt (curpfx fschatbot) @ ''_summarization.txt'',
           results_display = blocks (scored_prefix (generate fschatbot) scorer items),
           summarization_json = None, printed_errors = [err]\<rparr>
      | None \<Rightarrow>
          \<lparr>display_name = str_opt (curpfx fschatbot) @ ''_summarization.txt'',
           results_display = blocks (scored_prefix (generate fschatbot) scorer items)
             @ [AggregateLine (aggregate
                  (map score (scored_prefix (generate fschatbot) scorer items)))],
           summarization_json = Some (scored_prefix (generate fschatbot) scorer items),
           printed_errors = []\<rparr>)"
  by (simp add: evaluate_def Let_def scoring_loop_eq split: option.splits)

lemma no_aggregate_in_blocks: "AggregateLine r \<notin> set (blocks samples)"
  by (auto simp: blocks_def)

lemma scored_prefix_all:
  "first_error gen scorer items = None \<Longrightarrow>
     length (scored_prefix gen scorer items) = length items"
proof -
  assume "first_error gen scorer items = None"
  then have "find (\<lambda>item. isl (item_result gen scorer item)) items = None"
    by (simp add: first_error_def split: option.splits)
  then have "\<forall>item \<in> set items. \<not> isl (item_result gen scorer item)"
    by (simp add: find_None_iff)
  then have "takeWhile (\<lambda>item. \<not> isl (item_result gen scorer item)) items = items"
    by simp
  then show ?thesis by (simp only: scored_prefix_def length_map)
qed


lemma FSChatBot_ckpt_ex: "FSChatBot world_ckpt cfg_ex False = Inr bot_ex"
  unfolding FSChatBot_eq [OF save_freq_ex] find_candidate_ckpt load_error_ckpt_ex
    option.case chatbot_values_ex bot_ex_def
  by (rule refl)

lemma item_result_ex:
  "item_result (generate_ex bot_ex) scorer_ex item_1 = Inr sample_1"
  "item_result (generate_ex bot_ex) scorer_ex item_2 = Inl (External ''generation failed'')"
  by (simp_all add: item_result_def generate_ex_def scorer_ex_def item_1_def item_2_def
      sample_1_def)

lemma first_error_ex:
  "first_error (generate_ex bot_ex) scorer_ex [item_1, item_2]
   = Some (External ''generation failed'')"
  "first_error (generate_ex bot_ex) scorer_ex [item_1] = None"
  by (simp_all add: first_error_def item_result_ex)

lemma scored_prefix_ex:
  "scored_prefix (generate_ex bot_ex) scorer_ex [item_1, item_2] = [sample_1]"
  "scored_prefix (generate_ex bot_ex) scorer_ex [item_1] = [sample_1]"
  by (simp_all add: scored_prefix_def item_result_ex)

text \<open>
  C8, as the code has it. Once the chat bot is built and the test items are loaded,
  \<open>main\<close> returns normally whatever the generation and the scorer raise. When an
  exception occurs at some item, the results file holds the blocks of the items
  before it and nothing else, the exception is printed, and neither the file
  \<open>summarization.json\<close> nor the aggregate line is written. Only a loop that ends
  without exception is followed by the dump of all items and by the aggregate line.
\<close>

theorem scoring_exception_keeps_written_blocks:
  assumes "FSChatBot w cfg False = Inr fschatbot"
  shows "main w cfg (Inr items) generate scorer aggregate
           = Inr (evaluate fschatbot generate scorer aggregate items) \<and>
         (\<forall>err. first_error (generate fschatbot) scorer items = Some err \<longrightarrow>
            results_display (evaluate fschatbot generate scorer aggregate items)
              = blocks (scored_prefix (generate fschatbot) scorer items) \<and>
            (\<forall>r. AggregateLine r
                 \<notin> set (results_display (evaluate fschatbot generate scorer aggregate items))) \<and>
            summarization_json (evaluate fschatbot generate scorer aggregate items) = None \<and>
            printed_errors (evaluate fschatbot generate scorer aggregate items) = [err]) \<and>
         (first_error (generate fschatbot) scorer items = None \<longrightarrow>
            results_display (evaluate fschatbot generate scorer aggregate items)
              = blocks (scored_prefix (generate fschatbot) scorer items)
                @ [AggregateLine (aggregate
                     (map score (scored_prefix (generate fschatbot) scorer items)))] \<and>
            summarization_json (evaluate fschatbot generate scorer aggregate items)
              = Some (scored_prefix (generate fschatbot) scorer items) \<and>
            length (scored_prefix (generate fschatbot) scorer items) = length items \<and>
            printed_errors (evaluate fschatbot generate scorer aggregate items) = [])"
proof -
  have 1: "main w cfg (Inr items) generate scorer aggregate
           = Inr (evaluate fschatbot generate scorer aggregate items)"
    by (simp add: main_def assms)
  have 2: "\<forall>err. first_error (generate fschatbot) scorer items = Some err \<longrightarrow>
            results_display (evaluate fschatbot generate scorer aggregate items)
              = blocks (scored_prefix (generate fschatbot) scorer items) \<and>
            (\<forall>r. AggregateLine r
                 \<notin> set (results_display (evaluate fschatbot generate scorer aggregate items))) \<and>
            summarization_json (evaluate fschatbot generate scorer aggregate items) = None \<and>
            printed_errors (evaluate fschatbot generate scorer aggregate items) = [err]"
    by (simp add: evaluate_eq no_aggregate_in_blocks)
  have 3: "first_error (generate fschatbot) scorer items = None \<longrightarrow>
            results_display (evaluate fschatbot generate scorer aggregate items)
              = blocks (scored_prefix (generate fschatbot) scorer items)
                @ [AggregateLine (aggregate
                     (map score (scored_prefix (generate fschatbot) scorer items)))] \<and>
            summarization_json (evaluate fschatbot generate scorer aggregate items)
              = Some (scored_prefix (generate fschatbot) scorer items) \<and>
            length (scored_prefix (generate fschatbot) scorer items) = length items \<and>
            printed_errors (evaluate fschatbot generate scorer aggregate items) = []"
    by (simp add: evaluate_eq scored_prefix_all)
  show ?thesis
    by (rule conjI 1 2 3)+
qed

theorem scoring_exception_keeps_written_blocks_witness:
  "FSChatBot world_ckpt cfg_ex False = Inr bot_ex \<and>
   first_error (generate_ex bot_ex) scorer_ex [item_1, item_2]
     = Some (External ''generation failed'') \<and>
   main world_ckpt cfg_ex (Inr [item_1, item_2]) generate_ex scorer_ex aggregate_ex
     = Inr \<lparr>display_name = ''1__summarization.txt'',
            results_display = [ItemBlock sample_1, Separator],
            summarization_json = None,
            printed_errors = [External ''generation failed'']\<rparr> \<and>
   first_error (generate_ex bot_ex) scorer_ex [item_1] = None \<and>
   main world_ckpt cfg_ex (Inr [item_1]) generate_ex scorer_ex aggregate_ex
     = Inr \<lparr>display_name = ''1__summarization.txt'',
            results_display = [ItemBlock sample_1, Separator, AggregateLine 2],
            summarization_json = Some [sample_1],
            printed_errors = []\<rparr>"
proof -
  have a: "main world_ckpt cfg_ex (Inr [item_1, item_2]) generate_ex scorer_ex aggregate_ex
     = Inr (evaluate bot_ex generate_ex scorer_ex aggregate_ex [item_1, item_2])"
    using scoring_exception_keeps_written_blocks
      [OF FSChatBot_ckpt_ex, of "[item_1, item_2]" generate_ex scorer_ex aggregate_ex]
    by (rule conjunct1)
  have b: "main world_ckpt cfg_ex (Inr [item_1]) generate_ex scorer_ex aggregate_ex
     = Inr (evaluate bot_ex generate_ex scorer_ex aggregate_ex [item_1])"
    using scoring_exception_keeps_written_blocks
      [OF FSChatBot_ckpt_ex, of "[item_1]" generate_ex scorer_ex aggregate_ex]
    by (rule conjunct1)
  have e: "evaluate bot_ex generate_ex scorer_ex aggregate_ex [item_1, item_2]
     = \<lparr>display_name = ''1__summarization.txt'',
            results_display = [ItemBlock sample_1, Separator],
            summarization_json = None,
            printed_errors = [External ''generation failed'']\<rparr>"
    "evaluate bot_ex generate_ex scorer_ex aggregate_ex [item_1]
     = \<lparr>display_name = ''1__summarization.txt'',
            results_display = [ItemBlock sample_1, Separator, AggregateLine 2],
            summarization_json = Some [sample_1],
            printed_errors = []\<rparr>"
    by (simp_all add: evaluate_eq first_error_ex scored_prefix_ex blocks_def
        aggregate_ex_def)
      (simp_all add: str_opt_def bot_ex_def sample_1_def)
  show ?thesis
    using a b FSChatBot_ckpt_ex first_error_ex
    unfolding e by (simp only: simp_thms)
qed

text \<open>
  The claim C8 as worded fails in what is written: the generation raises at the
  second item, and the run ends with the block of the first item in the results file,
  without the aggregate line and without \<open>summarization.json\<close>.
\<close>

theorem scoring_exception_counterexample:
  "main world_ckpt cfg_ex (Inr [item_1, item_2]) generate_ex scorer_ex aggregate_ex
     = Inr \<lparr>display_name = ''1__summarization.txt'',
            results_display = [ItemBlock sample_1, Separator],
            summarization_json = None,
            printed_errors = [External ''generation failed'']\<rparr> \<and>
   aggregate_ex (map score [sample_1]) = 2 \<and>
   AggregateLine (2::nat)
     \<notin> set (results_display
              (evaluate bot_ex generate_ex scorer_ex aggregate_ex [item_1, item_2]))"
  by (simp add: main_def FSChatBot_ckpt_ex evaluate_eq first_error_ex scored_prefix_ex
      blocks_def str_opt_def aggregate_ex_def)
    (simp add: bot_ex_def sample_1_def)

end
